theory Spec2Isabelle
  imports Complex_Main
begin

section \<open>Conventions of the embedding\<close>

text \<open>
  The numerical core of the NMR buffer pH estimator (\<^verbatim>\<open>src/numerical\<close>) is embedded
  function by function. JavaScript numbers are modelled as mathematical reals, rounding
  being outside the model, with two exceptions. \<open>ionisationFractions\<close>, whose products of
  powers of ten leave the range of a double for inputs the specification admits, is
  modelled with that range: its values are finite, infinite or \<^verbatim>\<open>NaN\<close>. And the one place
  where the source passes \<^verbatim>\<open>Infinity\<close> on purpose (the distance of an absent second
  candidate) is modelled by an option value. Objects used as dictionaries are association
  lists in insertion order (what \<^verbatim>\<open>Object.entries\<close> enumerates) or maps of their own
  properties (properties inherited from \<^verbatim>\<open>Object.prototype\<close> are not modelled); an optional
  property read with \<^verbatim>\<open>??\<close> is an option field. Exceptions are values of a sum type. Arrays
  handed back by a caller-supplied function (the optimizer's \<^verbatim>\<open>parameterValues\<close>, the
  residuals of a residual function) are indexed with \<open>!\<close> on the understanding that they
  have the length the source expects; no statement below depends on a read outside an
  array.
\<close>

section \<open>Buffer model (bufferModel.js)\<close>

text \<open>A database value is a number or an array \<^verbatim>\<open>[value, uncertainty]\<close>.\<close>

datatype valueWithUncertainty = Num real | WithUncertainty real "real option"

fun getValue :: "valueWithUncertainty \<Rightarrow> real" where
  "getValue (WithUncertainty v u) = v"
| "getValue (Num v) = v"

fun getUncertainty :: "valueWithUncertainty \<Rightarrow> real" where
  "getUncertainty (WithUncertainty v u) = (case u of None \<Rightarrow> 0 | Some e \<Rightarrow> e)"
| "getUncertainty (Num v) = 0"

definition R :: real where
  "R = 8.314462618"

definition LN10 :: real where
  "LN10 = ln 10"

definition DAVIES_A :: real where
  "DAVIES_A = 0.5085"

record pKaParams =
  pKa :: valueWithUncertainty
  dH_kJ_mol :: "valueWithUncertainty option"
  dCp_J_mol_K :: "valueWithUncertainty option"
  protonated_charge :: "real option"
  ion_size_angstrom :: "real option"
  ionic_strength_coefficient_per_M :: "valueWithUncertainty option"
  ionic_strength_model :: "string option"

text \<open>\<^verbatim>\<open>x ?? d\<close> on an optional property.\<close>

definition orElse :: "'a option \<Rightarrow> 'a \<Rightarrow> 'a" where
  "orElse x d = (case x of None \<Rightarrow> d | Some v \<Rightarrow> v)"

definition calculatePKaTemperature :: "pKaParams \<Rightarrow> real \<Rightarrow> real \<Rightarrow> real" where
  "calculatePKaTemperature pKaParams temperature referenceTemperature =
     (let pKaRef = getValue (pKa pKaParams);
          dH = getValue (orElse (dH_kJ_mol pKaParams) (Num 0)) * 1000;
          dCp = getValue (orElse (dCp_J_mol_K pKaParams) (Num 0));
          T = temperature;
          Tref = referenceTemperature;
          pKa1 = pKaRef;
          pKa2 = (if dH \<noteq> 0 then pKa1 + (dH / (R * LN10)) * (1 / T - 1 / Tref) else pKa1);
          pKa3 = (if dCp \<noteq> 0
                  then pKa2 + (dCp / (R * LN10)) * (Tref / T - 1 + ln (T / Tref))
                  else pKa2)
      in pKa3)"

definition calculatePKaIonicStrengthDavies :: "pKaParams \<Rightarrow> real \<Rightarrow> real" where
  "calculatePKaIonicStrengthDavies pKaParams ionicStrength =
     (if ionicStrength \<le> 0 then 0
      else
        let protonatedCharge = orElse (protonated_charge pKaParams) 0;
            deprotonatedCharge = protonatedCharge - 1;
            deltaZSquared = 1 + deprotonatedCharge * deprotonatedCharge
                              - protonatedCharge * protonatedCharge;
            sqrtI = sqrt ionicStrength;
            daviesTerm = sqrtI / (1 + sqrtI) - 0.3 * ionicStrength
        in DAVIES_A * deltaZSquared * daviesTerm)"

definition calculatePKaIonicStrengthExtendedDH :: "pKaParams \<Rightarrow> real \<Rightarrow> real" where
  "calculatePKaIonicStrengthExtendedDH pKaParams ionicStrength =
     (if ionicStrength \<le> 0 then 0
      else
        let protonatedCharge = orElse (protonated_charge pKaParams) 0;
            deprotonatedCharge = protonatedCharge - 1;
            ionSize = orElse (ion_size_angstrom pKaParams) 4.5;
            deltaZSquared = 1 + deprotonatedCharge * deprotonatedCharge
                              - protonatedCharge * protonatedCharge;
            sqrtI = sqrt ionicStrength;
            B = 0.328;
            dhTerm = sqrtI / (1 + B * ionSize * sqrtI)
        in DAVIES_A * deltaZSquared * dhTerm)"

definition calculatePKaIonicStrengthEmpirical :: "pKaParams \<Rightarrow> real \<Rightarrow> real" where
  "calculatePKaIonicStrengthEmpirical pKaParams ionicStrength =
     (let coefficient = getValue (orElse (ionic_strength_coefficient_per_M pKaParams) (Num 0))
      in coefficient * ionicStrength)"

definition calculatePKa :: "pKaParams \<Rightarrow> real \<Rightarrow> real \<Rightarrow> real \<Rightarrow> real" where
  "calculatePKa pKaParams temperature ionicStrength referenceTemperature =
     (let pKa0 = calculatePKaTemperature pKaParams temperature referenceTemperature;
          model = orElse (ionic_strength_model pKaParams) ''davies''
      in if model = ''davies'' then
           pKa0 + calculatePKaIonicStrengthDavies pKaParams ionicStrength
         else if model = ''extended_debye_huckel'' then
           pKa0 + calculatePKaIonicStrengthExtendedDH pKaParams ionicStrength
         else if model = ''empirical'' then
           pKa0 + calculatePKaIonicStrengthEmpirical pKaParams ionicStrength
         else pKa0)"

text \<open>
  The numbers \<^verbatim>\<open>ionisationFractions\<close> computes, with the range of a double: a finite
  double (taken as its exact real value), an infinity, or \<^verbatim>\<open>NaN\<close>. An operation on finite
  operands whose exact result reaches the overflow threshold of round-to-nearest binary64,
  \<open>2 ^ 1024 - 2 ^ 970\<close>, returns an infinity; below the threshold the exact result stands
  for the rounded one (rounding and underflow towards zero are not modelled). The special cases are those of IEEE 754, the sign of a zero apart
  (a zero divisor counts as \<^verbatim>\<open>+0\<close>). The difference \<^verbatim>\<open>pKaValues[j] - pH\<close> of two finite
  inputs is taken exact.
\<close>

datatype double = Finite real | PlusInfinity | MinusInfinity | NaN

definition OVERFLOW_THRESHOLD :: real where
  "OVERFLOW_THRESHOLD = 2 ^ 1024 - 2 ^ 970"

definition rounded :: "real \<Rightarrow> double" where
  "rounded x =
     (if x \<ge> OVERFLOW_THRESHOLD then PlusInfinity
      else if x \<le> - OVERFLOW_THRESHOLD then MinusInfinity
      else Finite x)"

text \<open>\<^verbatim>\<open>Math.pow(10, x)\<close> for a finite \<^verbatim>\<open>x\<close>.\<close>

definition pow10 :: "real \<Rightarrow> double" where
  "pow10 x = rounded (10 powr x)"

fun dmul :: "double \<Rightarrow> double \<Rightarrow> double" where
  "dmul (Finite a) (Finite b) = rounded (a * b)"
| "dmul NaN y = NaN"
| "dmul x NaN = NaN"
| "dmul PlusInfinity (Finite b) =
     (if b = 0 then NaN else if 0 < b then PlusInfinity else MinusInfinity)"
| "dmul MinusInfinity (Finite b) =
     (if b = 0 then NaN else if 0 < b then MinusInfinity else PlusInfinity)"
| "dmul (Finite a) PlusInfinity =
     (if a = 0 then NaN else if 0 < a then PlusInfinity else MinusInfinity)"
| "dmul (Finite a) MinusInfinity =
     (if a = 0 then NaN else if 0 < a then MinusInfinity else PlusInfinity)"
| "dmul PlusInfinity PlusInfinity = PlusInfinity"
| "dmul PlusInfinity MinusInfinity = MinusInfinity"
| "dmul MinusInfinity PlusInfinity = MinusInfinity"
| "dmul MinusInfinity MinusInfinity = PlusInfinity"

fun dadd :: "double \<Rightarrow> double \<Rightarrow> double" where
  "dadd (Finite a) (Finite b) = rounded (a + b)"
| "dadd NaN y = NaN"
| "dadd x NaN = NaN"
| "dadd PlusInfinity MinusInfinity = NaN"
| "dadd MinusInfinity PlusInfinity = NaN"
| "dadd PlusInfinity y = PlusInfinity"
| "dadd MinusInfinity y = MinusInfinity"
| "dadd x PlusInfinity = PlusInfinity"
| "dadd x MinusInfinity = MinusInfinity"

fun ddiv :: "double \<Rightarrow> double \<Rightarrow> double" where
  "ddiv (Finite a) (Finite b) =
     (if b = 0
      then (if a = 0 then NaN else if 0 < a then PlusInfinity else MinusInfinity)
      else rounded (a / b))"
| "ddiv NaN y = NaN"
| "ddiv x NaN = NaN"
| "ddiv (Finite a) y = Finite 0"
| "ddiv PlusInfinity (Finite b) = (if 0 \<le> b then PlusInfinity else MinusInfinity)"
| "ddiv MinusInfinity (Finite b) = (if 0 \<le> b then MinusInfinity else PlusInfinity)"
| "ddiv x y = NaN"

text \<open>
  \<^verbatim>\<open>ionisationFractions\<close>: the array \<^verbatim>\<open>relatives\<close> starts as \<^verbatim>\<open>n\<close> ones and is updated in
  place by the two nested loops (\<^verbatim>\<open>i\<close> from 0 to \<^verbatim>\<open>n - 1\<close>, \<^verbatim>\<open>j\<close> from \<^verbatim>\<open>i\<close> to
  \<^verbatim>\<open>pKaValues.length - 1\<close>), then summed by \<^verbatim>\<open>reduce\<close> and divided by the total.
\<close>

definition relativesInner :: "real \<Rightarrow> real list \<Rightarrow> nat \<Rightarrow> double list \<Rightarrow> double list" where
  "relativesInner pH pKaValues i relatives =
     fold (\<lambda>j rel. rel[i := dmul (rel ! i) (pow10 (pKaValues ! j - pH))])
       [i ..< length pKaValues] relatives"

definition ionisationFractions :: "real \<Rightarrow> real list \<Rightarrow> double list" where
  "ionisationFractions pH pKaValues =
     (let n = length pKaValues + 1
      in if n = 1 then [Finite 1]
         else
           let relatives = fold (relativesInner pH pKaValues) [0 ..< n]
                             (replicate n (Finite 1));
               total = foldl (\<lambda>sum r. dadd sum r) (Finite 0) relatives
           in map (\<lambda>r. ddiv r total) relatives)"

text \<open>
  The same computation in exact real arithmetic, with no overflow. It is what the
  statements about \<open>ionisationFractions\<close> compare its result with.
\<close>

definition relativesInnerExact :: "real \<Rightarrow> real list \<Rightarrow> nat \<Rightarrow> real list \<Rightarrow> real list" where
  "relativesInnerExact pH pKaValues i relatives =
     fold (\<lambda>j rel. rel[i := rel ! i * (10 powr (pKaValues ! j - pH))])
       [i ..< length pKaValues] relatives"

definition ionisationFractionsExact :: "real \<Rightarrow> real list \<Rightarrow> real list" where
  "ionisationFractionsExact pH pKaValues =
     (let n = length pKaValues + 1
      in if n = 1 then [1]
         else
           let relatives = fold (relativesInnerExact pH pKaValues) [0 ..< n] (replicate n 1);
               total = foldl (\<lambda>sum r. sum + r) 0 relatives
           in map (\<lambda>r. r / total) relatives)"

record limitingShift =
  ionisation_state :: int
  shift_ppm :: valueWithUncertainty
  temperature_coefficient_ppm_per_K :: "valueWithUncertainty option"
  ionic_strength_coefficient_ppm_per_M :: "valueWithUncertainty option"

record resonance =
  resonance_id :: string
  description :: string
  limiting_shifts :: "limitingShift list"

record sample =
  reference_temperature_K :: "real option"
  reference_ionic_strength_M :: "real option"

text \<open>\<^verbatim>\<open>chemical_shifts\<close> is an object from nucleus to resonances, in insertion order.\<close>

record buffer =
  buffer_id :: string
  buffer_name :: string
  sample_id :: string
  pKa_parameters :: "pKaParams list"
  chemical_shifts :: "(string \<times> resonance list) list"

definition calculateLimitingShift :: "limitingShift \<Rightarrow> real \<Rightarrow> real \<Rightarrow> real \<Rightarrow> real \<Rightarrow> real" where
  "calculateLimitingShift limitingShift temperature ionicStrength referenceTemperature
       referenceIonicStrength =
     (let shift0 = getValue (shift_ppm limitingShift);
          tempCoeff = getValue (orElse (temperature_coefficient_ppm_per_K limitingShift) (Num 0));
          shift1 = shift0 + tempCoeff * (temperature - referenceTemperature);
          ionicCoeff =
            getValue (orElse (ionic_strength_coefficient_ppm_per_M limitingShift) (Num 0));
          shift2 = shift1 + ionicCoeff * (ionicStrength - referenceIonicStrength)
      in shift2)"

text \<open>
  The shift prediction and everything after it are modelled in exact arithmetic: a finite
  fraction is read as its real value. Of a prediction computed from a fraction that is not
  finite the model says nothing.
\<close>

fun realOf :: "double \<Rightarrow> real" where
  "realOf (Finite x) = x"

text \<open>\<^verbatim>\<open>fractions[stateIndex] ?? 0\<close>: an index outside the array reads as 0.\<close>

definition fractionAt :: "double list \<Rightarrow> int \<Rightarrow> real" where
  "fractionAt fractions stateIndex =
     (if 0 \<le> stateIndex \<and> nat stateIndex < length fractions
      then realOf (fractions ! nat stateIndex) else 0)"

definition predictShift ::
  "resonance \<Rightarrow> real list \<Rightarrow> real \<Rightarrow> real \<Rightarrow> real \<Rightarrow> real \<Rightarrow> real \<Rightarrow> real" where
  "predictShift resonance pKaValues pH temperature ionicStrength referenceTemperature
       referenceIonicStrength =
     (let fractions = ionisationFractions pH pKaValues
      in foldl (\<lambda>observedShift limitingShift.
                  observedShift
                  + fractionAt fractions (ionisation_state limitingShift)
                    * calculateLimitingShift limitingShift temperature ionicStrength
                        referenceTemperature referenceIonicStrength)
           0 (limiting_shifts resonance))"

definition getBufferPKaValues :: "buffer \<Rightarrow> real \<Rightarrow> real \<Rightarrow> real \<Rightarrow> real list" where
  "getBufferPKaValues buffer temperature ionicStrength referenceTemperature =
     sort (map (\<lambda>p. calculatePKa p temperature ionicStrength referenceTemperature)
             (pKa_parameters buffer))"

record shiftPrediction =
  sp_resonance_id :: string
  sp_description :: string
  shift :: real

definition refTempOf :: "sample option \<Rightarrow> real" where
  "refTempOf sample =
     (case sample of None \<Rightarrow> 298.15 | Some s \<Rightarrow> orElse (reference_temperature_K s) 298.15)"

definition refIonicOf :: "sample option \<Rightarrow> real" where
  "refIonicOf sample =
     (case sample of None \<Rightarrow> 0 | Some s \<Rightarrow> orElse (reference_ionic_strength_M s) 0)"

definition predictBufferShifts ::
  "buffer \<Rightarrow> real \<Rightarrow> real \<Rightarrow> real \<Rightarrow> sample option \<Rightarrow> (string \<times> shiftPrediction list) list" where
  "predictBufferShifts buffer pH temperature ionicStrength sample =
     (let refTemp = refTempOf sample;
          refIonic = refIonicOf sample;
          pKaValues = getBufferPKaValues buffer temperature ionicStrength refTemp
      in map (\<lambda>(nucleus, resonances).
                (nucleus,
                 map (\<lambda>resonance.
                        \<lparr>sp_resonance_id = resonance_id resonance,
                         sp_description = description resonance,
                         shift = predictShift resonance pKaValues pH temperature ionicStrength
                                   refTemp refIonic\<rparr>)
                   resonances))
           (chemical_shifts buffer))"

section \<open>Peak assignment (peakAssignment.js)\<close>

definition DEFAULT_TOLERANCES :: "string \<rightharpoonup> real" where
  "DEFAULT_TOLERANCES =
     map_of [(''1H'', 0.5), (''13C'', 2.0), (''15N'', 2.0), (''19F'', 3.0), (''31P'', 2.0)]"

text \<open>The confidence levels \<^verbatim>\<open>'high'\<close>, \<^verbatim>\<open>'medium'\<close>, \<^verbatim>\<open>'low'\<close> and \<^verbatim>\<open>'none'\<close>.\<close>

datatype confidence = High | Medium | Low | NoConfidence

text \<open>
  \<^verbatim>\<open>nextBestDistance\<close> is a number or \<^verbatim>\<open>Infinity\<close> (the default, and what the caller passes
  when there is no second candidate): \<open>None\<close> stands for \<^verbatim>\<open>Infinity\<close>.
\<close>

definition exceeds :: "real option \<Rightarrow> real \<Rightarrow> bool" where
  "exceeds d bound = (case d of None \<Rightarrow> True | Some x \<Rightarrow> x > bound)"

definition calculateConfidence :: "real \<Rightarrow> real \<Rightarrow> real option \<Rightarrow> confidence" where
  "calculateConfidence distance tolerance nextBestDistance =
     (let absDistance = \<bar>distance\<bar>
      in if absDistance > tolerance then NoConfidence
         else if absDistance < tolerance * 0.3 \<and> exceeds nextBestDistance (tolerance * 0.6)
           then High
         else if absDistance < tolerance * 0.6 then Medium
         else Low)"

record prediction =
  pred_buffer_id :: string
  pred_buffer_name :: string
  pred_resonance_id :: string
  pred_description :: string
  predicted_shift :: real

text \<open>
  \<^verbatim>\<open>allPredictions[nucleus]\<close> is created empty when absent, then the predictions of the
  buffer are pushed onto it.
\<close>

fun pushPredictions ::
  "(string \<times> prediction list) list \<Rightarrow> string \<Rightarrow> prediction list \<Rightarrow> (string \<times> prediction list) list"
  where
  "pushPredictions [] nucleus ps = [(nucleus, ps)]"
| "pushPredictions ((k, qs) # rest) nucleus ps =
     (if k = nucleus then (k, qs @ ps) # rest
      else (k, qs) # pushPredictions rest nucleus ps)"

definition generatePredictions ::
  "buffer list \<Rightarrow> (string \<rightharpoonup> sample) \<Rightarrow> real \<Rightarrow> real \<Rightarrow> real
     \<Rightarrow> (string \<times> prediction list) list" where
  "generatePredictions buffers samplesMap pH temperature ionicStrength =
     foldl (\<lambda>allPredictions buffer.
              let sample = samplesMap (sample_id buffer);
                  predictions = predictBufferShifts buffer pH temperature ionicStrength sample
              in foldl (\<lambda>allPredictions (nucleus, resonancePredictions).
                          pushPredictions allPredictions nucleus
                            (map (\<lambda>pred.
                                    \<lparr>pred_buffer_id = buffer_id buffer,
                                     pred_buffer_name = buffer_name buffer,
                                     pred_resonance_id = sp_resonance_id pred,
                                     pred_description = sp_description pred,
                                     predicted_shift = shift pred\<rparr>)
                               resonancePredictions))
                   allPredictions predictions)
       [] buffers"

record withDistance =
  pred :: prediction
  distance :: real
  absDistance :: real

record candidate =
  cand_buffer_id :: string
  cand_buffer_name :: string
  cand_resonance_id :: string
  cand_predicted_shift :: real
  cand_distance :: real

definition candidateOf :: "withDistance \<Rightarrow> candidate" where
  "candidateOf w =
     \<lparr>cand_buffer_id = pred_buffer_id (pred w), cand_buffer_name = pred_buffer_name (pred w),
      cand_resonance_id = pred_resonance_id (pred w),
      cand_predicted_shift = predicted_shift (pred w), cand_distance = distance w\<rparr>"

text \<open>
  The three objects \<^verbatim>\<open>assignSingleShift\<close> returns, one constructor each:
  \<^item> \<open>NoPredictions\<close>: \<^verbatim>\<open>{observed_shift, assigned: false, confidence: 'none', message}\<close>;
  \<^item> \<open>OutOfTolerance\<close>: \<^verbatim>\<open>{observed_shift, assigned: false, confidence: 'none', nearest, message}\<close>
    (the message is formatted from \<^verbatim>\<open>nearest\<close>);
  \<^item> \<open>Assigned\<close>: \<^verbatim>\<open>{observed_shift, assigned: true, confidence, buffer_id, buffer_name,
    resonance_id, description, predicted_shift, residual, alternatives}\<close>, the five fields of
    the best prediction kept together as \<open>matched\<close>.
\<close>

datatype assignment =
    NoPredictions (observed_shift: real)
  | OutOfTolerance (observed_shift: real) (nearest: candidate)
  | Assigned (observed_shift: real) (assignedConfidence: confidence) (matched: prediction)
      (residual: real) (alternatives: "candidate list")

fun assigned :: "assignment \<Rightarrow> bool" where
  "assigned (Assigned obs c m r alts) = True"
| "assigned (OutOfTolerance obs n) = False"
| "assigned (NoPredictions obs) = False"

fun confidenceOf :: "assignment \<Rightarrow> confidence" where
  "confidenceOf (Assigned obs c m r alts) = c"
| "confidenceOf (OutOfTolerance obs n) = NoConfidence"
| "confidenceOf (NoPredictions obs) = NoConfidence"

text \<open>
  \<^verbatim>\<open>withDistances.sort((a, b) => a.absDistance - b.absDistance)\<close> is a stable sort by
  \<^verbatim>\<open>absDistance\<close>, as \<open>sort_key\<close> is.
\<close>

definition assignSingleShift :: "real \<Rightarrow> prediction list \<Rightarrow> real \<Rightarrow> assignment" where
  "assignSingleShift observedShift predictions tolerance =
     (if predictions = [] then NoPredictions observedShift
      else
        let withDistances =
              sort_key absDistance
                (map (\<lambda>p. \<lparr>pred = p, distance = observedShift - predicted_shift p,
                            absDistance = \<bar>observedShift - predicted_shift p\<bar>\<rparr>)
                   predictions);
            best = hd withDistances;
            nextBest = (if 1 < length withDistances then Some (withDistances ! 1) else None);
            nextBestDistance = map_option absDistance nextBest;
            confidence = calculateConfidence (absDistance best) tolerance nextBestDistance
        in if confidence = NoConfidence
           then OutOfTolerance observedShift (candidateOf best)
           else Assigned observedShift confidence (pred best) (distance best)
                  (case nextBest of
                     None \<Rightarrow> []
                   | Some nb \<Rightarrow>
                       if confidence \<noteq> High \<and> absDistance nb < tolerance
                       then [candidateOf nb] else []))"

text \<open>The key \<^verbatim>\<open>`${buffer_id}:${resonance_id}`\<close> stored in the set \<^verbatim>\<open>usedPredictions\<close>.\<close>

definition predictionKey :: "string \<Rightarrow> string \<Rightarrow> string" where
  "predictionKey bufferId resonanceId = bufferId @ '':'' @ resonanceId"

text \<open>\<^verbatim>\<open>{...assignment, nucleus}\<close>: the assignment with the nucleus added.\<close>

datatype nucleusAssignment = WithNucleus (assignmentOf: assignment) (nucleusOf: string)

definition toleranceFor :: "(string \<rightharpoonup> real) \<Rightarrow> string \<Rightarrow> real" where
  "toleranceFor tolerances nucleus =
     orElse (tolerances nucleus) (orElse (DEFAULT_TOLERANCES nucleus) 1.0)"

text \<open>
  The loop over the sorted shifts of one nucleus. The state is the set \<^verbatim>\<open>usedPredictions\<close>;
  the result is the list pushed onto \<^verbatim>\<open>assignments[nucleus]\<close> and the set after the loop.
\<close>

fun assignShifts ::
  "prediction list \<Rightarrow> real \<Rightarrow> string \<Rightarrow> string set \<Rightarrow> real list
     \<Rightarrow> nucleusAssignment list \<times> string set" where
  "assignShifts nucleusPredictions tolerance nucleus usedPredictions [] = ([], usedPredictions)"
| "assignShifts nucleusPredictions tolerance nucleus usedPredictions (observedShift # rest) =
     (let availablePredictions =
            filter (\<lambda>p. predictionKey (pred_buffer_id p) (pred_resonance_id p)
                           \<notin> usedPredictions)
              nucleusPredictions;
          assignment = assignSingleShift observedShift availablePredictions tolerance;
          used' = (if assigned assignment
                   then insert (predictionKey (pred_buffer_id (matched assignment))
                                  (pred_resonance_id (matched assignment))) usedPredictions
                   else usedPredictions);
          (later, used'') = assignShifts nucleusPredictions tolerance nucleus used' rest
      in (WithNucleus assignment nucleus # later, used''))"

text \<open>Writing a property of an object: an existing key keeps its place, a new one is appended.\<close>

fun objectSet :: "(string \<times> 'a) list \<Rightarrow> string \<Rightarrow> 'a \<Rightarrow> (string \<times> 'a) list" where
  "objectSet [] k v = [(k, v)]"
| "objectSet ((k', v') # rest) k v =
     (if k' = k then (k', v) # rest else (k', v') # objectSet rest k v)"

text \<open>
  The loop over \<^verbatim>\<open>Object.entries(observedShifts)\<close>. \<^verbatim>\<open>usedPredictions\<close> is created once,
  before this loop, and is carried from one nucleus to the next.
\<close>

fun assignNuclei ::
  "(string \<times> prediction list) list \<Rightarrow> (string \<rightharpoonup> real)
     \<Rightarrow> (string \<times> nucleusAssignment list) list \<Rightarrow> string set \<Rightarrow> (string \<times> real list) list
     \<Rightarrow> (string \<times> nucleusAssignment list) list" where
  "assignNuclei predictions tolerances assignments usedPredictions [] = assignments"
| "assignNuclei predictions tolerances assignments usedPredictions ((nucleus, shifts) # rest) =
     (let nucleusPredictions = orElse (map_of predictions nucleus) [];
          tolerance = toleranceFor tolerances nucleus;
          sortedShifts = sort shifts;
          (forNucleus, used') =
             assignShifts nucleusPredictions tolerance nucleus usedPredictions sortedShifts
      in assignNuclei predictions tolerances (objectSet assignments nucleus forNucleus) used'
           rest)"

definition assignPeaks ::
  "(string \<times> real list) list \<Rightarrow> buffer list \<Rightarrow> (string \<rightharpoonup> sample) \<Rightarrow> real \<Rightarrow> real \<Rightarrow> real
     \<Rightarrow> (string \<rightharpoonup> real) \<Rightarrow> (string \<times> nucleusAssignment list) list" where
  "assignPeaks observedShifts buffers samplesMap pH temperature ionicStrength tolerances =
     (let predictions = generatePredictions buffers samplesMap pH temperature ionicStrength
      in assignNuclei predictions tolerances [] {} observedShifts)"

record peak =
  peak_nucleus :: string
  peak_observed_shift :: real
  peak_buffer_id :: string
  peak_resonance_id :: string
  peak_predicted_shift :: real

definition getAssignedPeaksForFitting :: "(string \<times> nucleusAssignment list) list \<Rightarrow> peak list" where
  "getAssignedPeaksForFitting assignments =
     concat (map (\<lambda>(nucleus, nucleusAssignments).
                    map (\<lambda>a. \<lparr>peak_nucleus = nucleus,
                               peak_observed_shift = observed_shift (assignmentOf a),
                               peak_buffer_id = pred_buffer_id (matched (assignmentOf a)),
                               peak_resonance_id = pred_resonance_id (matched (assignmentOf a)),
                               peak_predicted_shift = predicted_shift (matched (assignmentOf a))\<rparr>)
                      (filter (\<lambda>a. assigned (assignmentOf a)) nucleusAssignments))
               assignments)"

section \<open>Uncertainty engine (uncertainty.js)\<close>

text \<open>
  A thrown value: a \<^verbatim>\<open>TypeError\<close> of the runtime (reading a property of \<^verbatim>\<open>undefined\<close>),
  or an \<^verbatim>\<open>Error\<close> with its message.
\<close>

datatype exn = TypeError | Error string

text \<open>\<^verbatim>\<open>M[i][j] = v\<close> on an array of rows.\<close>

definition matSet :: "real list list \<Rightarrow> nat \<Rightarrow> nat \<Rightarrow> real \<Rightarrow> real list list" where
  "matSet M i j v = M[i := (M ! i)[j := v]]"

text \<open>
  \<^verbatim>\<open>calculateJacobian\<close>: the loop over the parameters, each round calling the residual
  function twice (it may throw) and filling column \<^verbatim>\<open>j\<close> by central differences.
\<close>

fun jacobianColumns ::
  "(real list \<Rightarrow> exn + real list) \<Rightarrow> real list \<Rightarrow> real \<Rightarrow> nat \<Rightarrow> nat list \<Rightarrow> real list list
     \<Rightarrow> exn + real list list" where
  "jacobianColumns residualFn params step nResiduals [] jacobian = Inr jacobian"
| "jacobianColumns residualFn params step nResiduals (j # js) jacobian =
     (case residualFn (params[j := params ! j + step]) of
        Inl e \<Rightarrow> Inl e
      | Inr residualsPlus \<Rightarrow>
          (case residualFn (params[j := params ! j - step]) of
             Inl e \<Rightarrow> Inl e
           | Inr residualsMinus \<Rightarrow>
               jacobianColumns residualFn params step nResiduals js
                 (fold (\<lambda>i jac.
                          matSet jac i j ((residualsPlus ! i - residualsMinus ! i) / (2 * step)))
                    [0 ..< nResiduals] jacobian)))"

definition calculateJacobian ::
  "(real list \<Rightarrow> exn + real list) \<Rightarrow> real list \<Rightarrow> real \<Rightarrow> exn + real list list" where
  "calculateJacobian residualFn params step =
     (let nParams = length params
      in case residualFn params of
           Inl e \<Rightarrow> Inl e
         | Inr baseResiduals \<Rightarrow>
             let nResiduals = length baseResiduals
             in jacobianColumns residualFn params step nResiduals [0 ..< nParams]
                  (replicate nResiduals (replicate nParams 0)))"

text \<open>
  \<^verbatim>\<open>matrixTransposeProduct\<close> reads \<^verbatim>\<open>A[0].length\<close>: with no row, \<^verbatim>\<open>A[0]\<close> is
  \<^verbatim>\<open>undefined\<close> and the read throws a \<^verbatim>\<open>TypeError\<close>.
\<close>

definition matrixTransposeProduct :: "real list list \<Rightarrow> exn + real list list" where
  "matrixTransposeProduct A =
     (if A = [] then Inl TypeError
      else
        let nRows = length A;
            nCols = length (A ! 0)
        in Inr (map (\<lambda>i. map (\<lambda>j. fold (\<lambda>k sum. sum + A ! k ! i * A ! k ! j) [0 ..< nRows] 0)
                           [0 ..< nCols])
                  [0 ..< nCols]))"

text \<open>
  \<^verbatim>\<open>invertSymmetricMatrix\<close>, loop by loop: the Cholesky factor \<^verbatim>\<open>L\<close> (a diagonal pivot
  that is not positive is replaced by \<^verbatim>\<open>1e-10\<close> before its square root is taken), the
  inverse \<^verbatim>\<open>Linv\<close> of the factor, and the product giving \<^verbatim>\<open>Ainv\<close>.
\<close>

definition choleskyEntry :: "real list list \<Rightarrow> nat \<Rightarrow> nat \<Rightarrow> real list list \<Rightarrow> real list list" where
  "choleskyEntry A i j L =
     (let sum = fold (\<lambda>k sum. sum - L ! i ! k * L ! j ! k) [0 ..< j] (A ! i ! j)
      in if i = j
         then matSet L i j (sqrt (if sum \<le> 0 then 1 / 10000000000 else sum))
         else matSet L i j (sum / L ! j ! j))"

definition choleskyFactor :: "real list list \<Rightarrow> real list list" where
  "choleskyFactor A =
     (let n = length A
      in fold (\<lambda>i L. fold (choleskyEntry A i) [0 ..< i + 1] L) [0 ..< n]
           (replicate n (replicate n 0)))"

definition invertLowerEntry :: "real list list \<Rightarrow> nat \<Rightarrow> nat \<Rightarrow> real list list \<Rightarrow> real list list" where
  "invertLowerEntry L i j Linv =
     (let sum = fold (\<lambda>k sum. sum - L ! j ! k * Linv ! k ! i) [i ..< j] 0
      in matSet Linv j i (sum / L ! j ! j))"

definition invertLower :: "real list list \<Rightarrow> real list list" where
  "invertLower L =
     (let n = length L
      in fold (\<lambda>i Linv. fold (invertLowerEntry L i) [i + 1 ..< n]
                           (matSet Linv i i (1 / L ! i ! i)))
           [0 ..< n] (replicate n (replicate n 0)))"

definition invertSymmetricMatrix :: "real list list \<Rightarrow> real list list" where
  "invertSymmetricMatrix A =
     (let n = length A;
          L = choleskyFactor A;
          Linv = invertLower L
      in map (\<lambda>i. map (\<lambda>j. fold (\<lambda>k sum. sum + Linv ! k ! i * Linv ! k ! j) [max i j ..< n] 0)
                     [0 ..< n])
           [0 ..< n])"

text \<open>
  \<^verbatim>\<open>calculateParameterUncertainties\<close>: the \<^verbatim>\<open>try\<close> block, and the \<^verbatim>\<open>catch\<close> that returns
  \<^verbatim>\<open>params.map(() => 0)\<close> for whatever was thrown.
\<close>

definition calculateParameterUncertainties ::
  "real list \<Rightarrow> (real list \<Rightarrow> exn + real list) \<Rightarrow> real \<Rightarrow> real \<Rightarrow> real list" where
  "calculateParameterUncertainties params residualFn residualVariance step =
     (case calculateJacobian residualFn params step of
        Inl e \<Rightarrow> map (\<lambda>p. 0) params
      | Inr jacobian \<Rightarrow>
          (case matrixTransposeProduct jacobian of
             Inl e \<Rightarrow> map (\<lambda>p. 0) params
           | Inr JTJ \<Rightarrow>
               let covarianceUnscaled = invertSymmetricMatrix JTJ
               in map (\<lambda>i. let variance = covarianceUnscaled ! i ! i * residualVariance
                           in if variance > 0 then sqrt variance else 0)
                    [0 ..< length params]))"

section \<open>Least-squares fitter (fitting.js)\<close>

text \<open>
  The \<^verbatim>\<open>options\<close> argument (\<open>None\<close>: the property is absent) and the object
  \<^verbatim>\<open>{ ...DEFAULT_OPTIONS, ...options }\<close> the fitter works with. \<^verbatim>\<open>initialPH\<close> is read with
  \<^verbatim>\<open>??\<close>, so a property that is present but \<^verbatim>\<open>null\<close> or \<^verbatim>\<open>undefined\<close> is kept apart
  (\<open>Some None\<close>) from an absent one.
\<close>

record fitOptions =
  given_refineTemperature :: "bool option"
  given_refineIonicStrength :: "bool option"
  given_refineReferences :: "(string \<times> bool) list option"
  given_maxIterations :: "nat option"
  given_tolerance :: "real option"
  given_initialPH :: "real option option"

record opts =
  refineTemperature :: bool
  refineIonicStrength :: bool
  refineReferences :: "(string \<times> bool) list"
  maxIterations :: nat
  errorTolerance :: real
  initialPH :: "real option"

definition withDefaults :: "fitOptions \<Rightarrow> opts" where
  "withDefaults options =
     \<lparr>refineTemperature = orElse (given_refineTemperature options) False,
      refineIonicStrength = orElse (given_refineIonicStrength options) False,
      refineReferences = orElse (given_refineReferences options) [],
      maxIterations = orElse (given_maxIterations options) 100,
      errorTolerance = orElse (given_tolerance options) (1 / 100000000),
      initialPH = orElse (given_initialPH options) (Some 7.0)\<rparr>"

record conditions =
  cond_pH :: real
  cond_temperature :: real
  cond_ionicStrength :: real
  cond_referenceOffsets :: "string \<rightharpoonup> real"

record initialConditions =
  init_pH :: "real option"
  init_temperature :: real
  init_ionicStrength :: real
  init_referenceOffsets :: "(string \<rightharpoonup> real) option"

text \<open>
  The object \<^verbatim>\<open>parameterMap\<close>: its keys are \<^verbatim>\<open>pH\<close>, then \<^verbatim>\<open>temperature\<close> and
  \<^verbatim>\<open>ionicStrength\<close> when refined, then one key \<^verbatim>\<open>ref_<nucleus>\<close> for each refined
  reference offset (kept here under the nucleus); each value is \<^verbatim>\<open>{index, name}\<close>.
\<close>

record parameterMap =
  pm_pH :: "nat \<times> string"
  pm_temperature :: "(nat \<times> string) option"
  pm_ionicStrength :: "(nat \<times> string) option"
  pm_refs :: "(string \<times> nat \<times> string) list"

definition parameterMapEntries :: "parameterMap \<Rightarrow> (string \<times> nat \<times> string) list" where
  "parameterMapEntries pm =
     [(''pH'', pm_pH pm)]
     @ (case pm_temperature pm of None \<Rightarrow> [] | Some m \<Rightarrow> [(''temperature'', m)])
     @ (case pm_ionicStrength pm of None \<Rightarrow> [] | Some m \<Rightarrow> [(''ionicStrength'', m)])
     @ map (\<lambda>(nucleus, m). (''ref_'' @ nucleus, m)) (pm_refs pm)"

text \<open>The loop of \<^verbatim>\<open>buildParameterVector\<close> over \<^verbatim>\<open>Object.entries(options.refineReferences)\<close>.\<close>

fun referenceParameters ::
  "conditions \<Rightarrow> (string \<times> bool) list \<Rightarrow> real list \<times> parameterMap \<times> nat
     \<Rightarrow> real list \<times> parameterMap \<times> nat" where
  "referenceParameters conditions [] state = state"
| "referenceParameters conditions ((nucleus, refine) # rest) (params, pm, index) =
     (if refine
      then referenceParameters conditions rest
             (params @ [orElse (cond_referenceOffsets conditions nucleus) 0],
              pm\<lparr>pm_refs := objectSet (pm_refs pm) nucleus
                                 (index, nucleus @ '' reference offset (ppm)'')\<rparr>,
              index + 1)
      else referenceParameters conditions rest (params, pm, index))"

definition buildParameterVector :: "conditions \<Rightarrow> opts \<Rightarrow> real list \<times> parameterMap" where
  "buildParameterVector conditions options =
     (let params0 = [cond_pH conditions];
          map0 = \<lparr>pm_pH = (0, ''pH''), pm_temperature = None, pm_ionicStrength = None,
                  pm_refs = []\<rparr>;
          index0 = (1::nat);
          (params1, map1, index1) =
            (if refineTemperature options
             then (params0 @ [cond_temperature conditions],
                   map0\<lparr>pm_temperature := Some (index0, ''Temperature (K)'')\<rparr>, index0 + 1)
             else (params0, map0, index0));
          (params2, map2, index2) =
            (if refineIonicStrength options
             then (params1 @ [cond_ionicStrength conditions],
                   map1\<lparr>pm_ionicStrength := Some (index1, ''Ionic strength (M)'')\<rparr>,
                   index1 + 1)
             else (params1, map1, index1));
          (params3, map3, index3) =
            referenceParameters conditions (refineReferences options) (params2, map2, index2)
      in (params3, map3))"

definition extractConditions :: "real list \<Rightarrow> parameterMap \<Rightarrow> conditions \<Rightarrow> conditions" where
  "extractConditions params pm baseConditions =
     \<lparr>cond_pH = params ! fst (pm_pH pm),
      cond_temperature =
        (case pm_temperature pm of
           Some m \<Rightarrow> params ! fst m | None \<Rightarrow> cond_temperature baseConditions),
      cond_ionicStrength =
        (case pm_ionicStrength pm of
           Some m \<Rightarrow> params ! fst m | None \<Rightarrow> cond_ionicStrength baseConditions),
      cond_referenceOffsets =
        foldl (\<lambda>offsets (nucleus, m). offsets(nucleus \<mapsto> params ! fst m))
          (cond_referenceOffsets baseConditions) (pm_refs pm)\<rparr>"

text \<open>
  The predicted shift of one assigned peak, as both closures compute it. The model
  function reads \<^verbatim>\<open>buffer.sample_id\<close> and \<^verbatim>\<open>resonance.limiting_shifts\<close> unguarded (a
  \<^verbatim>\<open>TypeError\<close> when the lookup found nothing); the residual function reads
  \<^verbatim>\<open>buffer.sample_id\<close> unguarded and throws \<^verbatim>\<open>Resonance not found\<close> itself.
\<close>

definition predictedForPeak ::
  "conditions \<Rightarrow> buffer \<Rightarrow> (string \<rightharpoonup> sample) \<Rightarrow> resonance \<Rightarrow> peak \<Rightarrow> real" where
  "predictedForPeak conditions buffer samplesMap resonance peak =
     (let sample = samplesMap (sample_id buffer);
          refTemp = refTempOf sample;
          refIonic = refIonicOf sample;
          pKaValues = getBufferPKaValues buffer (cond_temperature conditions)
                        (cond_ionicStrength conditions) refTemp;
          predictedShift = predictShift resonance pKaValues (cond_pH conditions)
                             (cond_temperature conditions) (cond_ionicStrength conditions)
                             refTemp refIonic;
          refOffset = orElse (cond_referenceOffsets conditions (peak_nucleus peak)) 0
      in predictedShift + refOffset)"

text \<open>The loop of the closure \<^verbatim>\<open>createResidualFunction\<close> returns.\<close>

fun residualsFor ::
  "conditions \<Rightarrow> (string \<rightharpoonup> buffer) \<Rightarrow> (string \<rightharpoonup> sample) \<Rightarrow> peak list \<Rightarrow> exn + real list"
  where
  "residualsFor conditions buffersMap samplesMap [] = Inr []"
| "residualsFor conditions buffersMap samplesMap (peak # rest) =
     (case buffersMap (peak_buffer_id peak) of
        None \<Rightarrow> Inl TypeError
      | Some buffer \<Rightarrow>
          (case find (\<lambda>r. resonance_id r = peak_resonance_id peak)
                  (orElse (map_of (chemical_shifts buffer) (peak_nucleus peak)) []) of
             None \<Rightarrow>
               Inl (Error (''Resonance not found: '' @ peak_resonance_id peak @ '' in ''
                             @ peak_buffer_id peak))
           | Some resonance \<Rightarrow>
               (let predictedShift = predictedForPeak conditions buffer samplesMap resonance peak
                in case residualsFor conditions buffersMap samplesMap rest of
                     Inl e \<Rightarrow> Inl e
                   | Inr residuals \<Rightarrow>
                       Inr ((peak_observed_shift peak - predictedShift) # residuals))))"

definition createResidualFunction ::
  "peak list \<Rightarrow> (string \<rightharpoonup> buffer) \<Rightarrow> (string \<rightharpoonup> sample) \<Rightarrow> parameterMap \<Rightarrow> conditions
     \<Rightarrow> real list \<Rightarrow> exn + real list" where
  "createResidualFunction assignedPeaks buffersMap samplesMap pm baseConditions params =
     residualsFor (extractConditions params pm baseConditions) buffersMap samplesMap
       assignedPeaks"

text \<open>The loop of the closure \<^verbatim>\<open>createModelFunction\<close> returns.\<close>

fun predictedFor ::
  "conditions \<Rightarrow> (string \<rightharpoonup> buffer) \<Rightarrow> (string \<rightharpoonup> sample) \<Rightarrow> peak list \<Rightarrow> exn + real list"
  where
  "predictedFor conditions buffersMap samplesMap [] = Inr []"
| "predictedFor conditions buffersMap samplesMap (peak # rest) =
     (case buffersMap (peak_buffer_id peak) of
        None \<Rightarrow> Inl TypeError
      | Some buffer \<Rightarrow>
          (case find (\<lambda>r. resonance_id r = peak_resonance_id peak)
                  (orElse (map_of (chemical_shifts buffer) (peak_nucleus peak)) []) of
             None \<Rightarrow> Inl TypeError
           | Some resonance \<Rightarrow>
               (let predictedShift = predictedForPeak conditions buffer samplesMap resonance peak
                in case predictedFor conditions buffersMap samplesMap rest of
                     Inl e \<Rightarrow> Inl e
                   | Inr predicted \<Rightarrow> Inr (predictedShift # predicted))))"

definition createModelFunction ::
  "peak list \<Rightarrow> (string \<rightharpoonup> buffer) \<Rightarrow> (string \<rightharpoonup> sample) \<Rightarrow> parameterMap \<Rightarrow> conditions
     \<Rightarrow> real list \<Rightarrow> exn + real list" where
  "createModelFunction assignedPeaks buffersMap samplesMap pm baseConditions params =
     predictedFor (extractConditions params pm baseConditions) buffersMap samplesMap
       assignedPeaks"

text \<open>
  The optimizer \<^verbatim>\<open>levenbergMarquardt\<close> of the package \<^verbatim>\<open>ml-levenberg-marquardt\<close> is not
  part of the repository: it is a parameter of the fitter. It receives the model function
  and the request below, and returns its result or throws. Each invocation is recorded in
  \<open>optimizerCalls\<close>.
\<close>

record lmRequest =
  lm_x :: "nat list"
  lm_y :: "real list"
  lm_initialValues :: "real list"
  lm_minValues :: "real list"
  lm_maxValues :: "real list"
  lm_maxIterations :: nat
  lm_errorTolerance :: real
  lm_damping :: real
  lm_dampingStepUp :: real
  lm_dampingStepDown :: real

record lmResult =
  parameterValues :: "real list"
  iterations :: nat

record parameterResult =
  pr_value :: real
  pr_uncertainty :: real
  pr_name :: string

record statistics =
  stat_nObservations :: nat
  stat_nParameters :: nat
  stat_degreesOfFreedom :: int
  stat_sumSquares :: real
  stat_rmsd :: real
  stat_chiSquared :: real
  stat_reducedChiSquared :: real
  stat_iterations :: nat

record fitSuccess =
  fit_parameters :: "(string \<times> parameterResult) list"
  fit_conditions :: conditions
  fit_assignments :: "(string \<times> nucleusAssignment list) list"
  fit_residuals :: "real list"
  fit_statistics :: statistics
  fit_converged :: bool

text \<open>
  The four objects \<^verbatim>\<open>fitParameters\<close> returns:
  \<^item> \<open>NoPeaksAssigned\<close>: \<^verbatim>\<open>{success: false, error: 'No peaks could be assigned to buffer
    resonances', assignments}\<close>;
  \<^item> \<open>Underdetermined\<close>: \<^verbatim>\<open>{success: false, error: `Underdetermined system: ${nObs}
    observations, ${nParams} parameters (DoF = ${dof})`, assignments, nObservations,
    nParameters, degreesOfFreedom}\<close>;
  \<^item> \<open>FittingFailed\<close>: \<^verbatim>\<open>{success: false, error: `Fitting failed: ${error.message}`,
    assignments}\<close>, from the \<^verbatim>\<open>catch\<close>;
  \<^item> \<open>Fitted\<close>: \<^verbatim>\<open>{success: true, parameters, conditions, assignments, residuals,
    statistics, convergence}\<close>.
\<close>

datatype fitResult =
    NoPeaksAssigned "(string \<times> nucleusAssignment list) list"
  | Underdetermined "(string \<times> nucleusAssignment list) list" (reported_nObservations: nat)
      (reported_nParameters: nat) (reported_degreesOfFreedom: int)
  | FittingFailed exn "(string \<times> nucleusAssignment list) list"
  | Fitted fitSuccess

fun success :: "fitResult \<Rightarrow> bool" where
  "success (Fitted r) = True"
| "success (NoPeaksAssigned a) = False"
| "success (Underdetermined a nObs nParams dof) = False"
| "success (FittingFailed e a) = False"

record fitRun =
  result :: fitResult
  optimizerCalls :: "lmRequest list"

definition minValuesFor :: "parameterMap \<Rightarrow> real list \<Rightarrow> real list" where
  "minValuesFor pm initialParams =
     map (\<lambda>i. if i = fst (pm_pH pm) then 0
              else if (case pm_temperature pm of Some m \<Rightarrow> i = fst m | None \<Rightarrow> False) then 273
              else if (case pm_ionicStrength pm of Some m \<Rightarrow> i = fst m | None \<Rightarrow> False) then 0
              else -10)
       [0 ..< length initialParams]"

definition maxValuesFor :: "parameterMap \<Rightarrow> real list \<Rightarrow> real list" where
  "maxValuesFor pm initialParams =
     map (\<lambda>i. if i = fst (pm_pH pm) then 14
              else if (case pm_temperature pm of Some m \<Rightarrow> i = fst m | None \<Rightarrow> False) then 373
              else if (case pm_ionicStrength pm of Some m \<Rightarrow> i = fst m | None \<Rightarrow> False) then 1
              else 10)
       [0 ..< length initialParams]"

text \<open>
  The \<^verbatim>\<open>try\<close> block of \<^verbatim>\<open>fitParameters\<close> with its \<^verbatim>\<open>catch\<close>: the optimizer is invoked once,
  with \<open>request\<close>; whatever it or the residual function throws becomes \<open>FittingFailed\<close>.
\<close>

definition fitGuarded ::
  "((real list \<Rightarrow> exn + real list) \<Rightarrow> lmRequest \<Rightarrow> exn + lmResult)
     \<Rightarrow> (string \<times> real list) list \<Rightarrow> buffer list \<Rightarrow> (string \<rightharpoonup> sample) \<Rightarrow> opts
     \<Rightarrow> (string \<times> nucleusAssignment list) list \<Rightarrow> peak list \<Rightarrow> (string \<rightharpoonup> buffer)
     \<Rightarrow> conditions \<Rightarrow> parameterMap \<Rightarrow> nat \<Rightarrow> nat \<Rightarrow> int \<Rightarrow> lmRequest \<Rightarrow> fitRun" where
  "fitGuarded levenbergMarquardt observedShifts buffers samplesMap options assignments
       assignedPeaks buffersMap baseConditions pm nObs nParams dof request =
     (let modelFn = createModelFunction assignedPeaks buffersMap samplesMap pm baseConditions
      in case levenbergMarquardt modelFn request of
           Inl e \<Rightarrow> \<lparr>result = FittingFailed e assignments, optimizerCalls = [request]\<rparr>
         | Inr lmResult \<Rightarrow>
             (let fittedParams = parameterValues lmResult;
                  fittedConditions = extractConditions fittedParams pm baseConditions;
                  finalAssignments =
                    assignPeaks observedShifts buffers samplesMap (cond_pH fittedConditions)
                      (cond_temperature fittedConditions) (cond_ionicStrength fittedConditions)
                      Map.empty;
                  residualFn =
                    createResidualFunction assignedPeaks buffersMap samplesMap pm baseConditions
              in case residualFn fittedParams of
                   Inl e \<Rightarrow> \<lparr>result = FittingFailed e assignments, optimizerCalls = [request]\<rparr>
                 | Inr residuals \<Rightarrow>
                     (let sumSquares = foldl (\<lambda>sum r. sum + r * r) 0 residuals;
                          rmsd = sqrt (sumSquares / real (length residuals));
                          chiSquared = sumSquares;
                          reducedChiSquared =
                            (if dof > 0 then chiSquared / real_of_int dof else chiSquared);
                          uncertainties =
                            calculateParameterUncertainties fittedParams residualFn
                              reducedChiSquared (1 / 1000000);
                          parameterResults =
                            map (\<lambda>(key, m).
                                   (key, \<lparr>pr_value = fittedParams ! fst m,
                                          pr_uncertainty = uncertainties ! fst m,
                                          pr_name = snd m\<rparr>))
                              (parameterMapEntries pm)
                      in \<lparr>result =
                            Fitted
                              \<lparr>fit_parameters = parameterResults,
                               fit_conditions = fittedConditions,
                               fit_assignments = finalAssignments,
                               fit_residuals = residuals,
                               fit_statistics =
                                 \<lparr>stat_nObservations = nObs, stat_nParameters = nParams,
                                  stat_degreesOfFreedom = dof, stat_sumSquares = sumSquares,
                                  stat_rmsd = rmsd, stat_chiSquared = chiSquared,
                                  stat_reducedChiSquared = reducedChiSquared,
                                  stat_iterations = iterations lmResult\<rparr>,
                               fit_converged = (iterations lmResult < maxIterations options)\<rparr>,
                          optimizerCalls = [request]\<rparr>)))"

text \<open>
  The data and the options object \<^verbatim>\<open>levenbergMarquardt\<close> is called with. (The wrapper
  \<^verbatim>\<open>params => x => modelFn(params)[x]\<close> is passed as the model function itself.)
\<close>

definition optimizerRequest :: "opts \<Rightarrow> peak list \<Rightarrow> real list \<Rightarrow> parameterMap \<Rightarrow> lmRequest" where
  "optimizerRequest options assignedPeaks initialParams pm =
     \<lparr>lm_x = [0 ..< length assignedPeaks],
      lm_y = map peak_observed_shift assignedPeaks,
      lm_initialValues = initialParams,
      lm_minValues = minValuesFor pm initialParams,
      lm_maxValues = maxValuesFor pm initialParams,
      lm_maxIterations = maxIterations options,
      lm_errorTolerance = errorTolerance options,
      lm_damping = 1.5, lm_dampingStepUp = 11, lm_dampingStepDown = 9\<rparr>"

definition fitParameters ::
  "((real list \<Rightarrow> exn + real list) \<Rightarrow> lmRequest \<Rightarrow> exn + lmResult)
     \<Rightarrow> (string \<times> real list) list \<Rightarrow> buffer list \<Rightarrow> (string \<rightharpoonup> sample) \<Rightarrow> initialConditions
     \<Rightarrow> fitOptions \<Rightarrow> fitRun" where
  "fitParameters levenbergMarquardt observedShifts buffers samplesMap initialConditions options =
     (let opts = withDefaults options;
          startPH = orElse (initialPH opts) (orElse (init_pH initialConditions) 7.0);
          assignments =
            assignPeaks observedShifts buffers samplesMap startPH
              (init_temperature initialConditions) (init_ionicStrength initialConditions)
              Map.empty;
          assignedPeaks = getAssignedPeaksForFitting assignments
      in if length assignedPeaks = 0
         then \<lparr>result = NoPeaksAssigned assignments, optimizerCalls = []\<rparr>
         else
           let buffersMap = map_of (rev (map (\<lambda>b. (buffer_id b, b)) buffers));
               baseConditions =
                 \<lparr>cond_pH = startPH,
                  cond_temperature = init_temperature initialConditions,
                  cond_ionicStrength = init_ionicStrength initialConditions,
                  cond_referenceOffsets =
                    orElse (init_referenceOffsets initialConditions) Map.empty\<rparr>;
               (initialParams, pm) = buildParameterVector baseConditions opts;
               nParams = length initialParams;
               nObs = length assignedPeaks;
               dof = int nObs - int nParams
           in if dof < 0
              then \<lparr>result = Underdetermined assignments nObs nParams dof,
                    optimizerCalls = []\<rparr>
              else
                fitGuarded levenbergMarquardt observedShifts buffers samplesMap opts assignments
                  assignedPeaks buffersMap baseConditions pm nObs nParams dof
                  (optimizerRequest opts assignedPeaks initialParams pm))"

text \<open>\<^verbatim>\<open>checkDegreesOfFreedom\<close> of validation.js (the message is determined by the counts).\<close>

record dofCheck =
  dof_valid :: bool
  dof_warning :: bool
  dof_nObservations :: int
  dof_nParameters :: int
  dof_degreesOfFreedom :: int

definition checkDegreesOfFreedom :: "int \<Rightarrow> int \<Rightarrow> dofCheck" where
  "checkDegreesOfFreedom nObservations nParameters =
     (let dof = nObservations - nParameters
      in \<lparr>dof_valid = (dof > 0), dof_warning = (dof = 1),
          dof_nObservations = nObservations, dof_nParameters = nParameters,
          dof_degreesOfFreedom = dof\<rparr>)"

section \<open>Notions used in the statements\<close>

text \<open>
  The keys and the (buffer_id, resonance_id) pairs of the assigned entries of one nucleus,
  in the order of the sorted observed shifts.
\<close>

definition claimedKeys :: "nucleusAssignment list \<Rightarrow> string list" where
  "claimedKeys as =
     map (\<lambda>a. predictionKey (pred_buffer_id (matched (assignmentOf a)))
                 (pred_resonance_id (matched (assignmentOf a))))
       (filter (\<lambda>a. assigned (assignmentOf a)) as)"

definition claimedPairs :: "nucleusAssignment list \<Rightarrow> (string \<times> string) list" where
  "claimedPairs as =
     map (\<lambda>a. (pred_buffer_id (matched (assignmentOf a)),
                 pred_resonance_id (matched (assignmentOf a))))
       (filter (\<lambda>a. assigned (assignmentOf a)) as)"

text \<open>
  A bound on the relative populations under which nothing in \<open>ionisationFractions\<close>
  overflows: seven of them still sum to less than the overflow threshold.
\<close>

definition RELATIVE_BOUND :: real where
  "RELATIVE_BOUND = 10 ^ 307"

text \<open>
  The values of the local constants of \<^verbatim>\<open>fitParameters\<close> the statements speak of: the pH
  the first assignment round runs at, \<^verbatim>\<open>assignments\<close>, \<^verbatim>\<open>baseConditions\<close>,
  \<^verbatim>\<open>nObs = assignedPeaks.length\<close> and \<^verbatim>\<open>nParams = initialParams.length\<close>.
\<close>

definition startPH :: "initialConditions \<Rightarrow> fitOptions \<Rightarrow> real" where
  "startPH initialConditions options =
     orElse (initialPH (withDefaults options)) (orElse (init_pH initialConditions) 7.0)"

definition initialAssignments ::
  "(string \<times> real list) list \<Rightarrow> buffer list \<Rightarrow> (string \<rightharpoonup> sample) \<Rightarrow> initialConditions
     \<Rightarrow> fitOptions \<Rightarrow> (string \<times> nucleusAssignment list) list" where
  "initialAssignments observedShifts buffers samplesMap initialConditions options =
     assignPeaks observedShifts buffers samplesMap (startPH initialConditions options)
       (init_temperature initialConditions) (init_ionicStrength initialConditions) Map.empty"

definition baseConditionsOf :: "initialConditions \<Rightarrow> fitOptions \<Rightarrow> conditions" where
  "baseConditionsOf initialConditions options =
     \<lparr>cond_pH = startPH initialConditions options,
      cond_temperature = init_temperature initialConditions,
      cond_ionicStrength = init_ionicStrength initialConditions,
      cond_referenceOffsets = orElse (init_referenceOffsets initialConditions) Map.empty\<rparr>"

definition nAssignedPeaks ::
  "(string \<times> real list) list \<Rightarrow> buffer list \<Rightarrow> (string \<rightharpoonup> sample) \<Rightarrow> initialConditions
     \<Rightarrow> fitOptions \<Rightarrow> nat" where
  "nAssignedPeaks observedShifts buffers samplesMap initialConditions options =
     length (getAssignedPeaksForFitting
               (initialAssignments observedShifts buffers samplesMap initialConditions options))"

definition nFreeParameters :: "initialConditions \<Rightarrow> fitOptions \<Rightarrow> nat" where
  "nFreeParameters initialConditions options =
     length (fst (buildParameterVector (baseConditionsOf initialConditions options)
                    (withDefaults options)))"

section \<open>Example inputs\<close>

text \<open>
  A buffer with one pKa of 7 and no temperature or ionic-strength dependence, two
  \<^verbatim>\<open>1H\<close> resonances and one \<^verbatim>\<open>13C\<close> resonance whose identifier is the parameter. At pH 7
  both ionisation states are populated by one half, so each predicted shift is the mean of
  the two limiting shifts: 3 and 4 ppm for \<^verbatim>\<open>1H\<close>, 50 ppm for \<^verbatim>\<open>13C\<close>.
\<close>

definition demoResonance :: "string \<Rightarrow> real \<Rightarrow> real \<Rightarrow> resonance" where
  "demoResonance name acid base =
     \<lparr>resonance_id = name, description = name,
      limiting_shifts =
        [\<lparr>ionisation_state = 0, shift_ppm = Num acid,
          temperature_coefficient_ppm_per_K = None,
          ionic_strength_coefficient_ppm_per_M = None\<rparr>,
         \<lparr>ionisation_state = 1, shift_ppm = Num base,
          temperature_coefficient_ppm_per_K = None,
          ionic_strength_coefficient_ppm_per_M = None\<rparr>]\<rparr>"

definition demoBuffer :: "string \<Rightarrow> buffer" where
  "demoBuffer carbonId =
     \<lparr>buffer_id = ''buf'', buffer_name = ''Buffer'', sample_id = ''s1'',
      pKa_parameters =
        [\<lparr>pKa = Num 7, dH_kJ_mol = None, dCp_J_mol_K = None, protonated_charge = None,
          ion_size_angstrom = None, ionic_strength_coefficient_per_M = None,
          ionic_strength_model = None\<rparr>],
      chemical_shifts =
        [(''1H'', [demoResonance ''CH3'' 3.5 2.5, demoResonance ''CH2'' 4.5 3.5]),
         (''13C'', [demoResonance carbonId 52 48])]\<rparr>"

definition demoPrediction :: "string \<Rightarrow> real \<Rightarrow> prediction" where
  "demoPrediction name predicted =
     \<lparr>pred_buffer_id = ''buf'', pred_buffer_name = ''Buffer'', pred_resonance_id = name,
      pred_description = name, predicted_shift = predicted\<rparr>"



text \<open>Two \<^verbatim>\<open>1H\<close> shifts (given unsorted) and one \<^verbatim>\<open>13C\<close> shift.\<close>

definition demoObserved :: "(string \<times> real list) list" where
  "demoObserved = [(''1H'', [4.1, 3.1]), (''13C'', [50.5])]"

definition demoConditions :: initialConditions where
  "demoConditions =
     \<lparr>init_pH = None, init_temperature = 298.15, init_ionicStrength = 0,
      init_referenceOffsets = None\<rparr>"

definition defaultOptions :: fitOptions where
  "defaultOptions =
     \<lparr>given_refineTemperature = None, given_refineIonicStrength = None,
      given_refineReferences = None, given_maxIterations = None, given_tolerance = None,
      given_initialPH = None\<rparr>"

text \<open>
  A stand-in where a statement needs some concrete optimizer: it returns the initial
  values after one iteration.
\<close>

definition stubOptimizer :: "(real list \<Rightarrow> exn + real list) \<Rightarrow> lmRequest \<Rightarrow> exn + lmResult" where
  "stubOptimizer modelFn request =
     Inr \<lparr>parameterValues = lm_initialValues request, iterations = 1\<rparr>"

text \<open>A residual function with one residual that does not depend on the parameters.\<close>

definition flatResidual :: "real list \<Rightarrow> exn + real list" where
  "flatResidual params = Inr [1 / 10]"

text \<open>A residual function that throws, as the fitter's does for an unknown resonance.\<close>

definition throwingResidual :: "real list \<Rightarrow> exn + real list" where
  "throwingResidual params = Inl (Error ''Resonance not found: CH3 in buf'')"

section \<open>Ionisation fractions\<close>

lemma relativesInnerExact_length:
  "length (relativesInnerExact pH pKaValues i relatives) = length relatives"
proof -
  have "length (fold (\<lambda>j rel. rel[i := rel ! i * (10 powr (pKaValues ! j - pH))]) js rel0)
          = length rel0" for js rel0
    by (induction js arbitrary: rel0) simp_all
  then show ?thesis by (simp add: relativesInnerExact_def)
qed

lemma update_scale_pos:
  assumes "list_all (\<lambda>x. 0 < x) rel" and "0 < (c::real)"
  shows "list_all (\<lambda>x. 0 < x) (rel[i := rel ! i * c])"
proof (cases "i < length rel")
  case True
  from assms(1) True have "0 < rel ! i" by (simp add: list_all_length)
  with assms(2) have "0 < rel ! i * c" by simp
  with assms(1) True show ?thesis
    by (auto simp: list_all_length nth_list_update)
next
  case False
  with assms(1) show ?thesis by (simp add: list_update_beyond)
qed

lemma relativesInnerExact_pos:
  assumes "list_all (\<lambda>x. 0 < x) relatives"
  shows "list_all (\<lambda>x. 0 < x) (relativesInnerExact pH pKaValues i relatives)"
proof -
  have "list_all (\<lambda>x. 0 < x) rel0 \<Longrightarrow>
        list_all (\<lambda>x. 0 < x)
          (fold (\<lambda>j rel. rel[i := rel ! i * (10 powr (pKaValues ! j - pH))]) js rel0)"
    for js rel0
  proof (induction js arbitrary: rel0)
    case Nil
    then show ?case by simp
  next
    case (Cons j js)
    have "list_all (\<lambda>x. 0 < x) (rel0[i := rel0 ! i * (10 powr (pKaValues ! j - pH))])"
      by (rule update_scale_pos[OF Cons.prems]) simp
    then show ?case using Cons.IH by simp
  qed
  with assms show ?thesis by (simp add: relativesInnerExact_def)
qed

lemma relatives_fold_length:
  "length (fold (relativesInnerExact pH pKaValues) is rel0) = length rel0"
  by (induction "is" arbitrary: rel0) (simp_all add: relativesInnerExact_length)

lemma relatives_fold_pos:
  "list_all (\<lambda>x. 0 < x) rel0 \<Longrightarrow>
   list_all (\<lambda>x. 0 < x) (fold (relativesInnerExact pH pKaValues) is rel0)"
  by (induction "is" arbitrary: rel0) (simp_all add: relativesInnerExact_pos)

lemma foldl_plus_sum_list:
  "foldl (\<lambda>sum r. sum + r) a xs = a + sum_list (xs::real list)"
  by (induction xs arbitrary: a) simp_all

lemma sum_list_pos_nonempty:
  "list_all (\<lambda>x. 0 < x) xs \<Longrightarrow> xs \<noteq> [] \<Longrightarrow> 0 < sum_list (xs::real list)"
proof (induction xs)
  case Nil
  then show ?case by simp
next
  case (Cons x xs)
  then show ?case
    by (cases xs) (simp_all add: add_pos_pos)
qed

lemma sum_list_divide_right:
  "sum_list (map (\<lambda>r. r / t) xs) = sum_list xs / (t::real)"
  by (induction xs) (simp_all add: add_divide_distrib)

lemma ionisationFractionsExact_partition:
  "length (ionisationFractionsExact pH pKaValues) = length pKaValues + 1
   \<and> list_all (\<lambda>f. 0 \<le> f) (ionisationFractionsExact pH pKaValues)
   \<and> sum_list (ionisationFractionsExact pH pKaValues) = 1
   \<and> ionisationFractionsExact pH [] = [1]"
proof (cases "pKaValues = []")
  case True
  then show ?thesis by (simp add: ionisationFractionsExact_def)
next
  case False
  define n where "n = length pKaValues + 1"
  define relatives where
    "relatives = fold (relativesInnerExact pH pKaValues) [0 ..< n] (replicate n 1)"
  define total where "total = foldl (\<lambda>sum r. sum + r) 0 relatives"
  have len: "length relatives = n"
    by (simp add: relatives_def relatives_fold_length)
  have pos: "list_all (\<lambda>x. 0 < x) relatives"
    unfolding relatives_def
    by (rule relatives_fold_pos) (simp add: list_all_length)
  have ne: "relatives \<noteq> []" using len by (auto simp: n_def)
  have total: "total = sum_list relatives"
    by (simp add: total_def foldl_plus_sum_list)
  have total_pos: "0 < total"
    using sum_list_pos_nonempty[OF pos ne] by (simp add: total)
  have eq: "ionisationFractionsExact pH pKaValues = map (\<lambda>r. r / total) relatives"
    using False
    by (simp add: ionisationFractionsExact_def Let_def n_def relatives_def total_def)
  have nonneg: "list_all (\<lambda>f. 0 \<le> f) (map (\<lambda>r. r / total) relatives)"
    using pos total_pos by (auto simp: list_all_length intro: less_imp_le)
  have one: "sum_list (map (\<lambda>r. r / total) relatives) = 1"
    using total_pos by (simp add: sum_list_divide_right total)
  have empty: "ionisationFractionsExact pH [] = [1]"
    by (simp add: ionisationFractionsExact_def)
  show ?thesis
    using len nonneg one empty by (simp add: eq n_def)
qed

lemma threshold_bound: "7 * RELATIVE_BOUND < OVERFLOW_THRESHOLD"
  by (simp add: OVERFLOW_THRESHOLD_def RELATIVE_BOUND_def)

lemma RELATIVE_BOUND_pos: "1 \<le> RELATIVE_BOUND"
  by (simp add: RELATIVE_BOUND_def)

lemma rounded_finite: "\<bar>x\<bar> < OVERFLOW_THRESHOLD \<Longrightarrow> rounded x = Finite x"
  by (auto simp: rounded_def)

lemma powr_budget: "c \<le> 307 \<Longrightarrow> 10 powr c \<le> RELATIVE_BOUND"
proof -
  assume "c \<le> 307"
  then have "(10::real) powr c \<le> 10 powr 307" by (intro powr_mono) simp_all
  also have "(10::real) powr 307 = RELATIVE_BOUND" by (simp add: RELATIVE_BOUND_def)
  finally show ?thesis .
qed

lemma within_budget:
  assumes "0 \<le> x" and "x \<le> 10 powr c" and "c \<le> 307"
  shows "\<bar>x\<bar> < OVERFLOW_THRESHOLD"
proof -
  have "x \<le> RELATIVE_BOUND" using assms(2) powr_budget[OF assms(3)] by simp
  also have "\<dots> < OVERFLOW_THRESHOLD" using threshold_bound RELATIVE_BOUND_pos by simp
  finally show ?thesis using assms(1) by simp
qed

lemma inner_simulation:
  assumes "i < length rel" and "0 < rel ! i" and "rel ! i \<le> 10 powr c" and "0 \<le> c"
    and "c + (\<Sum>j\<leftarrow>js. max 0 (pKaValues ! j - pH)) \<le> 307"
  shows "fold (\<lambda>j rel. rel[i := dmul (rel ! i) (pow10 (pKaValues ! j - pH))]) js
           (map Finite rel)
         = map Finite (fold (\<lambda>j rel. rel[i := rel ! i * (10 powr (pKaValues ! j - pH))]) js rel)
       \<and> fold (\<lambda>j rel. rel[i := rel ! i * (10 powr (pKaValues ! j - pH))]) js rel ! i
           \<le> RELATIVE_BOUND"
  using assms
proof (induction js arbitrary: rel c)
  case Nil
  then show ?case using powr_budget[of c] by simp
next
  case (Cons j js)
  define x where "x = pKaValues ! j - pH"
  define rel' where "rel' = rel[i := rel ! i * (10 powr x)]"
  have nonneg: "0 \<le> (\<Sum>j\<leftarrow>js. max 0 (pKaValues ! j - pH))"
    by (rule sum_list_nonneg) auto
  have xb: "x \<le> max 0 x" by simp
  have cx: "c + max 0 x \<le> 307" using Cons.prems(5) nonneg by (simp add: x_def)
  have px: "\<bar>10 powr x\<bar> < OVERFLOW_THRESHOLD"
    by (rule within_budget[where c = "max 0 x"]) (use cx Cons.prems(4) in auto)
  have "rel ! i * 10 powr x \<le> 10 powr c * 10 powr max 0 x"
    by (rule mult_mono) (use Cons.prems(2,3) in auto)
  then have le: "rel ! i * 10 powr x \<le> 10 powr (c + max 0 x)"
    by (simp add: powr_add)
  have pos: "0 < rel ! i * 10 powr x" using Cons.prems(2) by simp
  have prod: "\<bar>rel ! i * 10 powr x\<bar> < OVERFLOW_THRESHOLD"
    by (rule within_budget[where c = "c + max 0 x"]) (use le pos cx in auto)
  have step: "(map Finite rel)[i := dmul (map Finite rel ! i) (pow10 x)] = map Finite rel'"
    using Cons.prems(1)
    by (simp add: rel'_def pow10_def rounded_finite[OF px] rounded_finite[OF prod] map_update)
  have i': "i < length rel'" "0 < rel' ! i" "rel' ! i \<le> 10 powr (c + max 0 x)"
    "0 \<le> c + max 0 x"
    using Cons.prems(1,4) pos le by (simp_all add: rel'_def)
  have budget: "(c + max 0 x) + (\<Sum>j\<leftarrow>js. max 0 (pKaValues ! j - pH)) \<le> 307"
    using Cons.prems(5) by (simp add: x_def)
  from Cons.IH[OF i' budget] show ?case
    by (simp add: step x_def[symmetric] rel'_def[symmetric])
qed


lemma inner_exact_other:
  "k \<noteq> i \<Longrightarrow>
   fold (\<lambda>j rel. rel[i := rel ! i * (10 powr (pKaValues ! j - pH))]) js rel ! k = rel ! k"
  by (induction js arbitrary: rel) simp_all

lemma sum_from_le_sum:
  assumes "\<And>x. 0 \<le> f x"
  shows "(\<Sum>j\<leftarrow>[i ..< length xs]. f (xs ! j)) \<le> (\<Sum>x\<leftarrow>xs. (f x :: real))"
proof -
  have "map (\<lambda>j. f (xs ! j)) [i ..< length xs] = map f (drop i xs)"
    by (rule nth_equalityI) simp_all
  moreover have "sum_list (map f xs) = sum_list (map f (take i xs)) + sum_list (map f (drop i xs))"
    by (metis append_take_drop_id map_append sum_list_append)
  moreover have "0 \<le> sum_list (map f (take i xs))"
    by (rule sum_list_nonneg) (use assms in auto)
  ultimately show ?thesis by simp
qed

lemma outer_simulation:
  assumes "(\<Sum>x\<leftarrow>pKaValues. max 0 (x - pH)) \<le> 307"
    and "list_all (\<lambda>r. 0 < r \<and> r \<le> RELATIVE_BOUND) rel"
    and "\<forall>i \<in> set is. i < length rel \<and> rel ! i = 1"
    and "distinct is"
  shows "fold (relativesInner pH pKaValues) is (map Finite rel)
           = map Finite (fold (relativesInnerExact pH pKaValues) is rel)
       \<and> list_all (\<lambda>r. 0 < r \<and> r \<le> RELATIVE_BOUND)
           (fold (relativesInnerExact pH pKaValues) is rel)"
  using assms(2-)
proof (induction "is" arbitrary: rel)
  case Nil
  then show ?case by simp
next
  case (Cons i "is")
  define rel' where "rel' = relativesInnerExact pH pKaValues i rel"
  have i: "i < length rel" "rel ! i = 1" using Cons.prems(2) by simp_all
  have budget: "0 + (\<Sum>j\<leftarrow>[i ..< length pKaValues]. max 0 (pKaValues ! j - pH)) \<le> 307"
    using sum_from_le_sum[where f = "\<lambda>x. max 0 (x - pH)" and i = i and xs = pKaValues]
      assms(1)
    by simp
  have sim: "relativesInner pH pKaValues i (map Finite rel) = map Finite rel'"
    and top: "rel' ! i \<le> RELATIVE_BOUND"
    using inner_simulation[OF i(1) _ _ _ budget] i(2)
    by (simp_all add: relativesInner_def relativesInnerExact_def rel'_def)
  have len: "length rel' = length rel"
    by (simp add: rel'_def relativesInnerExact_length)
  have other: "rel' ! k = rel ! k" if "k \<noteq> i" for k
    using that by (simp add: rel'_def relativesInnerExact_def inner_exact_other)
  have pos: "list_all (\<lambda>x. 0 < x) rel'"
    unfolding rel'_def
    by (rule relativesInnerExact_pos) (use Cons.prems(1) in \<open>auto simp: list_all_iff\<close>)
  have bounded: "list_all (\<lambda>r. 0 < r \<and> r \<le> RELATIVE_BOUND) rel'"
    unfolding list_all_length
  proof (intro allI impI)
    fix k assume k: "k < length rel'"
    show "0 < rel' ! k \<and> rel' ! k \<le> RELATIVE_BOUND"
    proof (cases "k = i")
      case True
      with pos k top show ?thesis by (simp add: list_all_length)
    next
      case False
      with Cons.prems(1) k len other show ?thesis by (simp add: list_all_length)
    qed
  qed
  have rest: "\<forall>k \<in> set is. k < length rel' \<and> rel' ! k = 1"
  proof
    fix k assume k: "k \<in> set is"
    then have "k \<noteq> i" using Cons.prems(3) by auto
    with other[of k] len Cons.prems(2) k show "k < length rel' \<and> rel' ! k = 1" by simp
  qed
  have d: "distinct is" using Cons.prems(3) by simp
  from Cons.IH[OF bounded rest d] show ?case
    by (simp add: sim rel'_def[symmetric])
qed

lemma total_simulation:
  assumes "list_all (\<lambda>r. 0 < r \<and> r \<le> RELATIVE_BOUND) rel"
    and "0 \<le> a" and "a + real (length rel) * RELATIVE_BOUND < OVERFLOW_THRESHOLD"
  shows "foldl (\<lambda>sum r. dadd sum r) (Finite a) (map Finite rel) = Finite (a + sum_list rel)"
  using assms
proof (induction rel arbitrary: a)
  case Nil
  then show ?case by simp
next
  case (Cons r rel)
  have r: "0 < r" "r \<le> RELATIVE_BOUND" using Cons.prems(1) by simp_all
  have more: "0 \<le> real (length rel) * RELATIVE_BOUND"
    using RELATIVE_BOUND_pos by simp
  have "a + r + real (length rel) * RELATIVE_BOUND
          \<le> a + real (length (r # rel)) * RELATIVE_BOUND"
    using r(2) by (simp add: algebra_simps)
  then have next_budget: "(a + r) + real (length rel) * RELATIVE_BOUND < OVERFLOW_THRESHOLD"
    using Cons.prems(3) by linarith
  then have "\<bar>a + r\<bar> < OVERFLOW_THRESHOLD"
    using more r(1) Cons.prems(2) by linarith
  then have step: "rounded (a + r) = Finite (a + r)"
    by (rule rounded_finite)
  have "list_all (\<lambda>r. 0 < r \<and> r \<le> RELATIVE_BOUND) rel" "0 \<le> a + r"
    using Cons.prems(1,2) r(1) by simp_all
  from Cons.IH[OF this next_budget] show ?case
    by (simp add: step add.assoc)
qed

lemma division_simulation:
  assumes "list_all (\<lambda>r. 0 < r) rel"
  shows "map (\<lambda>r. ddiv r (Finite (sum_list rel))) (map Finite rel)
           = map Finite (map (\<lambda>r. r / sum_list rel) rel)"
proof -
  have "ddiv (Finite r) (Finite (sum_list rel)) = Finite (r / sum_list rel)"
    if "r \<in> set rel" for r
  proof -
    have pos: "0 < r" using assms that by (simp add: list_all_iff)
    have "r \<le> sum_list rel"
      by (rule member_le_sum_list) (use that assms in \<open>auto simp: list_all_iff intro: less_imp_le\<close>)
    then have total: "0 < sum_list rel" and "r / sum_list rel \<le> 1"
      and "0 \<le> r / sum_list rel"
      using pos by simp_all
    moreover have "1 < OVERFLOW_THRESHOLD"
      using threshold_bound RELATIVE_BOUND_pos by linarith
    ultimately have "\<bar>r / sum_list rel\<bar> < OVERFLOW_THRESHOLD" by linarith
    then have "rounded (r / sum_list rel) = Finite (r / sum_list rel)"
      by (rule rounded_finite)
    with total show ?thesis by simp
  qed
  then show ?thesis by simp
qed

text \<open>
  C1, as amended. For every list of at most 6 pKa values and every pH for which the
  positive differences \<open>pKa\<^sub>j - pH\<close> sum to at most 307 (no relative population then
  overflows), \<open>ionisationFractions\<close> returns the numbers of the exact computation: one
  entry per ionisation state, every entry finite and non-negative, the entries summing to
  1 over the reals (up to rounding in floating point). With no pKa value the result is
  the single entry 1.
\<close>

theorem ionisationFractions_in_range:
  assumes "length pKaValues \<le> 6"
    and "(\<Sum>x\<leftarrow>pKaValues. max 0 (x - pH)) \<le> 307"
  shows "ionisationFractions pH pKaValues = map Finite (ionisationFractionsExact pH pKaValues)
   \<and> length (ionisationFractions pH pKaValues) = length pKaValues + 1
   \<and> list_all (\<lambda>d. \<exists>f. d = Finite f \<and> 0 \<le> f) (ionisationFractions pH pKaValues)
   \<and> sum_list (map realOf (ionisationFractions pH pKaValues)) = 1
   \<and> ionisationFractions pH [] = [Finite 1]"
proof -
  have empty: "ionisationFractions pH [] = [Finite 1]"
    by (simp add: ionisationFractions_def)
  have same: "ionisationFractions pH pKaValues
                = map Finite (ionisationFractionsExact pH pKaValues)"
  proof (cases "pKaValues = []")
    case True
    then show ?thesis by (simp add: ionisationFractions_def ionisationFractionsExact_def)
  next
    case False
    define n where "n = length pKaValues + 1"
    define rel where
      "rel = fold (relativesInnerExact pH pKaValues) [0 ..< n] (replicate n 1)"
    have start: "list_all (\<lambda>r. 0 < r \<and> r \<le> RELATIVE_BOUND) (replicate n (1::real))"
      using RELATIVE_BOUND_pos by (simp add: list_all_length)
    have ones: "\<forall>i \<in> set [0 ..< n]. i < length (replicate n (1::real))
                  \<and> replicate n (1::real) ! i = 1"
      by simp
    from outer_simulation[OF assms(2) start ones]
    have sim: "fold (relativesInner pH pKaValues) [0 ..< n] (replicate n (Finite 1))
                 = map Finite rel"
      and bounded: "list_all (\<lambda>r. 0 < r \<and> r \<le> RELATIVE_BOUND) rel"
      by (simp_all add: rel_def map_replicate)
    have len: "length rel = n" by (simp add: rel_def relatives_fold_length)
    have "real n * RELATIVE_BOUND \<le> 7 * RELATIVE_BOUND"
      using assms(1) RELATIVE_BOUND_pos by (simp add: n_def)
    then have "0 + real (length rel) * RELATIVE_BOUND < OVERFLOW_THRESHOLD"
      using threshold_bound by (simp add: len)
    from total_simulation[OF bounded _ this]
    have total: "foldl (\<lambda>sum r. dadd sum r) (Finite 0) (map Finite rel)
                   = Finite (sum_list rel)"
      by simp
    have pos: "list_all (\<lambda>r. 0 < r) rel" using bounded by (simp add: list_all_iff)
    have double: "ionisationFractions pH pKaValues
        = map (\<lambda>r. ddiv r (foldl (\<lambda>sum r. dadd sum r) (Finite 0)
                                (fold (relativesInner pH pKaValues) [0 ..< n]
                                   (replicate n (Finite 1)))))
            (fold (relativesInner pH pKaValues) [0 ..< n] (replicate n (Finite 1)))"
      using False by (simp add: ionisationFractions_def Let_def n_def)
    have exact: "ionisationFractionsExact pH pKaValues = map (\<lambda>r. r / sum_list rel) rel"
      using False
      by (simp add: ionisationFractionsExact_def Let_def n_def rel_def foldl_plus_sum_list)
    show ?thesis
      unfolding double exact sim total by (rule division_simulation[OF pos])
  qed
  have unwrap: "map (realOf \<circ> Finite) fs = fs" for fs
    by (induction fs) simp_all
  from ionisationFractionsExact_partition[of pH pKaValues]
  have len: "length (ionisationFractionsExact pH pKaValues) = length pKaValues + 1"
    and nonneg: "list_all (\<lambda>f. 0 \<le> f) (ionisationFractionsExact pH pKaValues)"
    and one: "sum_list (ionisationFractionsExact pH pKaValues) = 1"
    by simp_all
  have finite: "list_all (\<lambda>d. \<exists>f. d = Finite f \<and> 0 \<le> f)
                  (map Finite (ionisationFractionsExact pH pKaValues))"
    using nonneg by (simp add: list_all_iff)
  show ?thesis
    unfolding same using len finite one empty by (simp add: unwrap)
qed

theorem ionisationFractions_in_range_witness:
  "length [2.1, 7.2, 12.3 :: real] \<le> 6
   \<and> (\<Sum>x\<leftarrow>[2.1, 7.2, 12.3 :: real]. max 0 (x - 7)) \<le> 307
   \<and> ionisationFractions 7 [2.1, 7.2, 12.3]
       = map Finite (ionisationFractionsExact 7 [2.1, 7.2, 12.3])
   \<and> length (ionisationFractions 7 [2.1, 7.2, 12.3]) = 4
   \<and> list_all (\<lambda>d. \<exists>f. d = Finite f \<and> 0 \<le> f) (ionisationFractions 7 [2.1, 7.2, 12.3])
   \<and> sum_list (map realOf (ionisationFractions 7 [2.1, 7.2, 12.3])) = 1"
proof -
  have short: "length [2.1, 7.2, 12.3 :: real] \<le> 6" by simp
  have budget: "(\<Sum>x\<leftarrow>[2.1, 7.2, 12.3 :: real]. max 0 (x - 7)) \<le> 307" by simp
  have four: "length [2.1, 7.2, 12.3 :: real] + 1 = 4" by simp
  from ionisationFractions_in_range [where pKaValues = "[2.1, 7.2, 12.3]" and pH = 7,
      OF short budget]
  show ?thesis unfolding four using short budget by blast
qed

text \<open>
  As stated, C1 fails inside its range. At pH -50 with the sorted pKa values 2, 4, 6, 8,
  10, 12 the relative population of state 0 is \<open>10 ^ 342\<close>, which overflows to
  \<^verbatim>\<open>Infinity\<close>; so does the total, and the fractions returned are \<^verbatim>\<open>NaN\<close> for state 0
  (\<^verbatim>\<open>Infinity / Infinity\<close>) and 0 for every other state.
\<close>

theorem ionisationFractions_overflow_counterexample:
  "length [2, 4, 6, 8, 10, 12 :: real] \<le> 6
   \<and> sorted [2, 4, 6, 8, 10, 12 :: real]
   \<and> (- 50 :: real) \<le> - 50 \<and> (- 50 :: real) \<le> 50
   \<and> ionisationFractions (- 50) [2, 4, 6, 8, 10, 12]
       = [NaN, Finite 0, Finite 0, Finite 0, Finite 0, Finite 0, Finite 0]"
  by (simp add: ionisationFractions_def relativesInner_def upt_rec pow10_def rounded_def
      OVERFLOW_THRESHOLD_def)

section \<open>pKa correction at reference conditions\<close>

text \<open>
  C7. For every pKa parameter record, whatever its enthalpy, heat capacity, charge and
  ionic-strength model, \<open>calculatePKa\<close> at a temperature equal to the reference
  temperature and ionic strength 0 returns the record's reference pKa value unchanged.
  The temperature is an absolute temperature; all that is used of it is that it is not 0
  (the source divides by it).
\<close>

theorem calculatePKa_reference_conditions:
  assumes "T \<noteq> 0"
  shows "calculatePKa pKaParams T 0 T = getValue (pKa pKaParams)"
  using assms
  by (simp add: calculatePKa_def calculatePKaTemperature_def Let_def
      calculatePKaIonicStrengthDavies_def calculatePKaIonicStrengthExtendedDH_def
      calculatePKaIonicStrengthEmpirical_def)

theorem calculatePKa_reference_conditions_witness:
  "(298.15::real) \<noteq> 0
   \<and> calculatePKa \<lparr>pKa = WithUncertainty 7.2 (Some 0.01), dH_kJ_mol = Some (Num 3.6),
        dCp_J_mol_K = Some (Num (-220)), protonated_charge = Some (-1),
        ion_size_angstrom = None, ionic_strength_coefficient_per_M = None,
        ionic_strength_model = Some ''extended_debye_huckel''\<rparr> 298.15 0 298.15 = 7.2"
  using calculatePKa_reference_conditions [where T = "298.15" and pKaParams =
      "\<lparr>pKa = WithUncertainty 7.2 (Some 0.01), dH_kJ_mol = Some (Num 3.6),
        dCp_J_mol_K = Some (Num (-220)), protonated_charge = Some (-1),
        ion_size_angstrom = None, ionic_strength_coefficient_per_M = None,
        ionic_strength_model = Some ''extended_debye_huckel''\<rparr>"]
  by simp


section \<open>Confidence levels\<close>

lemma calculateConfidence_none_iff:
  "calculateConfidence d t d2 = NoConfidence \<longleftrightarrow> \<bar>d\<bar> > t"
  by (simp add: calculateConfidence_def Let_def)

lemma hd_sort_key_in: "xs \<noteq> [] \<Longrightarrow> hd (sort_key f xs) \<in> set xs"
  by (metis hd_in_set set_sort set_empty)

lemma assignSingleShift_beyond_tolerance:
  assumes "\<forall>p \<in> set predictions. \<bar>obs - predicted_shift p\<bar> > t"
  shows "confidenceOf (assignSingleShift obs predictions t) = NoConfidence
     \<and> \<not> assigned (assignSingleShift obs predictions t)"
proof (cases "predictions = []")
  case True
  then show ?thesis by (simp add: assignSingleShift_def)
next
  case False
  define ws where
    "ws = map (\<lambda>p. \<lparr>pred = p, distance = obs - predicted_shift p,
                     absDistance = \<bar>obs - predicted_shift p\<bar>\<rparr>) predictions"
  have "ws \<noteq> []" using False by (simp add: ws_def)
  then have "hd (sort_key absDistance ws) \<in> set ws" by (rule hd_sort_key_in)
  then obtain p where "p \<in> set predictions"
     "absDistance (hd (sort_key absDistance ws)) = \<bar>obs - predicted_shift p\<bar>"
    by (auto simp: ws_def)
  with assms have "absDistance (hd (sort_key absDistance ws)) > t" by simp
  then have
    "calculateConfidence (absDistance (hd (sort_key absDistance ws))) t d2 = NoConfidence" for d2
    unfolding calculateConfidence_none_iff by linarith
  then show ?thesis using False
    by (simp add: assignSingleShift_def Let_def ws_def)
qed

text \<open>
  C5. For every best distance \<open>d\<close>, tolerance \<open>t\<close> and next-best distance \<open>d2\<close> (\<open>None\<close>
  for infinity, when there is no second candidate), \<open>calculateConfidence\<close> returns
  \<open>NoConfidence\<close> exactly when \<open>\<bar>d\<bar> > t\<close>; otherwise \<open>High\<close> exactly when
  \<open>\<bar>d\<bar> < 0.3 t\<close> and \<open>d2 > 0.6 t\<close>; otherwise \<open>Medium\<close> exactly when \<open>\<bar>d\<bar> < 0.6 t\<close>;
  otherwise \<open>Low\<close>. And \<open>assignSingleShift\<close> reports no confidence and leaves the peak
  unassigned whenever the distance of every candidate (so of the best one) exceeds the
  tolerance, however many candidates there are.
\<close>

theorem confidence_levels:
  "(calculateConfidence d t d2 = NoConfidence \<longleftrightarrow> \<bar>d\<bar> > t)
   \<and> (\<not> \<bar>d\<bar> > t \<longrightarrow>
        (calculateConfidence d t d2 = High \<longleftrightarrow> \<bar>d\<bar> < 0.3 * t \<and> exceeds d2 (0.6 * t)))
   \<and> (\<not> \<bar>d\<bar> > t \<and> \<not> (\<bar>d\<bar> < 0.3 * t \<and> exceeds d2 (0.6 * t)) \<longrightarrow>
        (calculateConfidence d t d2 = Medium \<longleftrightarrow> \<bar>d\<bar> < 0.6 * t))
   \<and> (\<not> \<bar>d\<bar> > t \<and> \<not> (\<bar>d\<bar> < 0.3 * t \<and> exceeds d2 (0.6 * t)) \<and> \<not> \<bar>d\<bar> < 0.6 * t \<longrightarrow>
        calculateConfidence d t d2 = Low)
   \<and> ((\<forall>p \<in> set predictions. \<bar>obs - predicted_shift p\<bar> > t) \<longrightarrow>
        confidenceOf (assignSingleShift obs predictions t) = NoConfidence
        \<and> \<not> assigned (assignSingleShift obs predictions t))"
proof -
  have levels:
    "(calculateConfidence d t d2 = NoConfidence \<longleftrightarrow> \<bar>d\<bar> > t)
     \<and> (\<not> \<bar>d\<bar> > t \<longrightarrow>
          (calculateConfidence d t d2 = High \<longleftrightarrow> \<bar>d\<bar> < 0.3 * t \<and> exceeds d2 (0.6 * t)))
     \<and> (\<not> \<bar>d\<bar> > t \<and> \<not> (\<bar>d\<bar> < 0.3 * t \<and> exceeds d2 (0.6 * t)) \<longrightarrow>
          (calculateConfidence d t d2 = Medium \<longleftrightarrow> \<bar>d\<bar> < 0.6 * t))
     \<and> (\<not> \<bar>d\<bar> > t \<and> \<not> (\<bar>d\<bar> < 0.3 * t \<and> exceeds d2 (0.6 * t)) \<and> \<not> \<bar>d\<bar> < 0.6 * t \<longrightarrow>
          calculateConfidence d t d2 = Low)"
    by (simp add: calculateConfidence_def Let_def mult.commute)
  show ?thesis
    using levels
      assignSingleShift_beyond_tolerance[where predictions = predictions and obs = obs and t = t]
    by blast
qed

theorem confidence_levels_witness:
  "calculateConfidence (1 / 10) (1 / 2) (Some (9 / 10)) = High
   \<and> calculateConfidence (1 / 5) (1 / 2) None = Medium
   \<and> calculateConfidence (2 / 5) (1 / 2) None = Low
   \<and> calculateConfidence 1 (1 / 2) None = NoConfidence
   \<and> \<bar>5 - predicted_shift (demoPrediction ''CH3'' 3)\<bar> > 1 / 2
   \<and> \<bar>5 - predicted_shift (demoPrediction ''CH2'' 4)\<bar> > 1 / 2
   \<and> confidenceOf (assignSingleShift 5 [demoPrediction ''CH3'' 3, demoPrediction ''CH2'' 4] (1 / 2))
       = NoConfidence
   \<and> \<not> assigned (assignSingleShift 5 [demoPrediction ''CH3'' 3, demoPrediction ''CH2'' 4] (1 / 2))"
  using confidence_levels [where d = "1 / 10" and t = "1 / 2" and ?d2.0 = "Some (9 / 10)"
      and predictions = "[demoPrediction ''CH3'' 3, demoPrediction ''CH2'' 4]" and obs = 5]
    confidence_levels [where d = "1 / 5" and t = "1 / 2" and ?d2.0 = None
      and predictions = "[]" and obs = 0]
    confidence_levels [where d = "2 / 5" and t = "1 / 2" and ?d2.0 = None
      and predictions = "[]" and obs = 0]
    confidence_levels [where d = 1 and t = "1 / 2" and ?d2.0 = None
      and predictions = "[]" and obs = 0]
  by (simp add: exceeds_def demoPrediction_def)

section \<open>The assignment round\<close>

lemma assignSingleShift_matched_in:
  assumes "assigned (assignSingleShift obs ps t)"
  shows "matched (assignSingleShift obs ps t) \<in> set ps"
proof (cases "ps = []")
  case True
  with assms show ?thesis by (simp add: assignSingleShift_def)
next
  case False
  define ws where
    "ws = map (\<lambda>p. \<lparr>pred = p, distance = obs - predicted_shift p,
                     absDistance = \<bar>obs - predicted_shift p\<bar>\<rparr>) ps"
  have "ws \<noteq> []" using False by (simp add: ws_def)
  then have "hd (sort_key absDistance ws) \<in> set ws" by (rule hd_sort_key_in)
  then have "pred (hd (sort_key absDistance ws)) \<in> set ps"
    by (auto simp: ws_def)
  with assms False show ?thesis
    by (simp add: assignSingleShift_def Let_def ws_def split: if_splits)
qed

lemma claimedKeys_Cons:
  "claimedKeys (WithNucleus a n # as) =
     (if assigned a
      then predictionKey (pred_buffer_id (matched a)) (pred_resonance_id (matched a))
             # claimedKeys as
      else claimedKeys as)"
  by (simp add: claimedKeys_def)

lemma assignShifts_Cons:
  "assignShifts preds tol nuc used (obs # rest) =
     (let a = assignSingleShift obs
                (filter (\<lambda>p. predictionKey (pred_buffer_id p) (pred_resonance_id p) \<notin> used)
                   preds) tol;
          used1 = (if assigned a
                   then insert (predictionKey (pred_buffer_id (matched a))
                                  (pred_resonance_id (matched a))) used
                   else used)
      in (WithNucleus a nuc # fst (assignShifts preds tol nuc used1 rest),
          snd (assignShifts preds tol nuc used1 rest)))"
  by (simp add: Let_def split: prod.splits)

lemma assignShifts_claimed:
  "assignShifts preds tol nuc used shifts = (as, used') \<Longrightarrow>
     distinct (claimedKeys as) \<and> set (claimedKeys as) \<inter> used = {}
     \<and> used' = used \<union> set (claimedKeys as)
     \<and> set (claimedKeys as)
         \<subseteq> (\<lambda>p. predictionKey (pred_buffer_id p) (pred_resonance_id p)) ` set preds"
proof (induction shifts arbitrary: used as used')
  case Nil
  then show ?case by (auto simp: claimedKeys_def)
next
  case (Cons obs rest)
  define avail where
    "avail = filter (\<lambda>p. predictionKey (pred_buffer_id p) (pred_resonance_id p) \<notin> used) preds"
  define a where "a = assignSingleShift obs avail tol"
  define used1 where
    "used1 = (if assigned a
              then insert (predictionKey (pred_buffer_id (matched a))
                             (pred_resonance_id (matched a))) used
              else used)"
  obtain later used2 where rec: "assignShifts preds tol nuc used1 rest = (later, used2)"
    by (cases "assignShifts preds tol nuc used1 rest")
  have "assignShifts preds tol nuc used (obs # rest)
          = (WithNucleus a nuc # fst (assignShifts preds tol nuc used1 rest),
             snd (assignShifts preds tol nuc used1 rest))"
    unfolding assignShifts_Cons by (simp add: Let_def avail_def a_def used1_def)
  with Cons.prems rec have as: "as = WithNucleus a nuc # later" and u: "used' = used2"
    by simp_all
  note IH = Cons.IH[OF rec]
  show ?case
  proof (cases "assigned a")
    case True
    then have "matched a \<in> set avail"
      unfolding a_def by (rule assignSingleShift_matched_in)
    then have fresh:
      "predictionKey (pred_buffer_id (matched a)) (pred_resonance_id (matched a)) \<notin> used"
      and inp: "matched a \<in> set preds"
      by (simp_all add: avail_def)
    from True have u1:
      "used1 = insert (predictionKey (pred_buffer_id (matched a))
                         (pred_resonance_id (matched a))) used"
      by (simp add: used1_def)
    show ?thesis
      using IH fresh inp True unfolding as u u1 claimedKeys_Cons
      by auto
  next
    case False
    then have u1: "used1 = used" by (simp add: used1_def)
    show ?thesis
      using IH False unfolding as u u1 claimedKeys_Cons
      by auto
  qed
qed

lemma claimedKeys_pairs:
  "claimedKeys as = map (\<lambda>(b, r). predictionKey b r) (claimedPairs as)"
  by (simp add: claimedKeys_def claimedPairs_def)

lemma assignShifts_distinct_pairs:
  "distinct (claimedPairs (fst (assignShifts preds tol nuc used shifts)))"
proof -
  obtain as used' where eq: "assignShifts preds tol nuc used shifts = (as, used')"
    by (cases "assignShifts preds tol nuc used shifts")
  from assignShifts_claimed[OF eq] have "distinct (claimedKeys as)" by simp
  then have "distinct (claimedPairs as)"
    unfolding claimedKeys_pairs by (simp add: distinct_map)
  then show ?thesis by (simp add: eq)
qed

lemma set_objectSet: "set (objectSet xs k v) \<subseteq> set xs \<union> {(k, v)}"
  by (induction xs) (auto split: if_splits)

lemma assignNuclei_entries:
  "(n, as) \<in> set (assignNuclei predictions tolerances acc used obs) \<Longrightarrow>
     (n, as) \<in> set acc
     \<or> (\<exists>preds tol used0 shifts. as = fst (assignShifts preds tol n used0 shifts))"
proof (induction obs arbitrary: acc used)
  case Nil
  then show ?case by simp
next
  case (Cons entry rest)
  obtain nucleus shifts where entry: "entry = (nucleus, shifts)" by (cases entry)
  define preds where "preds = orElse (map_of predictions nucleus) []"
  obtain forNucleus used1 where
    step: "assignShifts preds (toleranceFor tolerances nucleus) nucleus used (sort shifts)
             = (forNucleus, used1)"
    by (cases "assignShifts preds (toleranceFor tolerances nucleus) nucleus used (sort shifts)")
  from Cons.prems have
    "(n, as) \<in> set (assignNuclei predictions tolerances (objectSet acc nucleus forNucleus)
                      used1 rest)"
    by (simp add: entry Let_def preds_def[symmetric] step)
  from Cons.IH[OF this] show ?case
  proof
    assume "(n, as) \<in> set (objectSet acc nucleus forNucleus)"
    with set_objectSet[of acc nucleus forNucleus]
    have "(n, as) \<in> set acc \<or> (n, as) = (nucleus, forNucleus)" by auto
    then show ?thesis
    proof
      assume "(n, as) = (nucleus, forNucleus)"
      then have
        "as = fst (assignShifts preds (toleranceFor tolerances nucleus) n used (sort shifts))"
        using step by simp
      then show ?thesis by blast
    qed simp
  qed simp
qed

section \<open>The example inputs evaluated\<close>

lemma ionisationFractions_at_pKa: "ionisationFractions 7 [7] = [Finite (1 / 2), Finite (1 / 2)]"
  by (simp add: ionisationFractions_def relativesInner_def upt_rec pow10_def rounded_def
      OVERFLOW_THRESHOLD_def)

lemma demo_pKaValues: "getBufferPKaValues (demoBuffer c) T 0 Tr = [7]"
  by (simp add: getBufferPKaValues_def demoBuffer_def calculatePKa_def
      calculatePKaTemperature_def orElse_def calculatePKaIonicStrengthDavies_def)

lemma demo_predictShift:
  "predictShift (demoResonance n a b) [7] 7 T I Tr Ir = a / 2 + b / 2"
  by (simp add: predictShift_def ionisationFractions_at_pKa demoResonance_def fractionAt_def
      calculateLimitingShift_def orElse_def)

lemma demo_predictions:
  "generatePredictions [demoBuffer c] Map.empty 7 T 0 =
     [(''1H'', [demoPrediction ''CH3'' 3, demoPrediction ''CH2'' 4]),
      (''13C'', [demoPrediction c 50])]"
proof -
  have fields:
    "chemical_shifts (demoBuffer c) =
       [(''1H'', [demoResonance ''CH3'' 3.5 2.5, demoResonance ''CH2'' 4.5 3.5]),
        (''13C'', [demoResonance c 52 48])]"
    "buffer_id (demoBuffer c) = ''buf''" "buffer_name (demoBuffer c) = ''Buffer''"
    by (simp_all add: demoBuffer_def)
  have res: "resonance_id (demoResonance n a b) = n" "description (demoResonance n a b) = n"
    for n a b
    by (simp_all add: demoResonance_def)
  show ?thesis
    by (simp add: generatePredictions_def predictBufferShifts_def Let_def demo_pKaValues
        demo_predictShift fields res demoPrediction_def)
qed

lemma demo_key:
  "predictionKey (pred_buffer_id (demoPrediction n x)) (pred_resonance_id (demoPrediction n x))
     = ''buf:'' @ n"
  by (simp add: demoPrediction_def predictionKey_def)

lemma demo_tolerances:
  "toleranceFor Map.empty ''1H'' = 1 / 2" "toleranceFor Map.empty ''13C'' = 2"
  by (simp_all add: toleranceFor_def DEFAULT_TOLERANCES_def orElse_def)

lemma demo_single_CH3:
  "assignSingleShift (31 / 10) [demoPrediction ''CH3'' 3, demoPrediction ''CH2'' 4] (1 / 2)
     = Assigned (31 / 10) High (demoPrediction ''CH3'' 3) (1 / 10) []"
  by (simp add: assignSingleShift_def demoPrediction_def calculateConfidence_def exceeds_def
      Let_def)

lemma demo_single_CH2:
  "assignSingleShift (41 / 10) [demoPrediction ''CH2'' 4] (1 / 2)
     = Assigned (41 / 10) High (demoPrediction ''CH2'' 4) (1 / 10) []"
  by (simp add: assignSingleShift_def demoPrediction_def calculateConfidence_def exceeds_def
      Let_def)

lemma demo_single_carbon:
  "assignSingleShift (101 / 2) [demoPrediction c 50] 2
     = Assigned (101 / 2) High (demoPrediction c 50) (1 / 2) []"
  by (simp add: assignSingleShift_def demoPrediction_def calculateConfidence_def exceeds_def
      Let_def)

lemma demo_proton_round:
  "assignShifts [demoPrediction ''CH3'' 3, demoPrediction ''CH2'' 4] (1 / 2) ''1H'' {}
       [31 / 10, 41 / 10]
     = ([WithNucleus (Assigned (31 / 10) High (demoPrediction ''CH3'' 3) (1 / 10) []) ''1H'',
         WithNucleus (Assigned (41 / 10) High (demoPrediction ''CH2'' 4) (1 / 10) []) ''1H''],
        {''buf:CH2'', ''buf:CH3''})"
  by (simp add: demo_key demo_single_CH3 demo_single_CH2 Let_def)

lemma demo_carbon_round_blocked:
  "assignShifts [demoPrediction ''CH3'' 50] 2 ''13C'' {''buf:CH2'', ''buf:CH3''} [101 / 2]
     = ([WithNucleus (NoPredictions (101 / 2)) ''13C''], {''buf:CH2'', ''buf:CH3''})"
  by (simp add: demo_key assignSingleShift_def Let_def)

lemma demo_carbon_round_free:
  "''buf:'' @ c \<notin> used \<Longrightarrow>
   assignShifts [demoPrediction c 50] 2 ''13C'' used [101 / 2]
     = ([WithNucleus (Assigned (101 / 2) High (demoPrediction c 50) (1 / 2) []) ''13C''],
        insert (''buf:'' @ c) used)"
  by (simp add: demo_key demo_single_carbon Let_def)

lemma demo_assignPeaks_shared:
  "assignPeaks demoObserved [demoBuffer ''CH3''] Map.empty 7 T 0 Map.empty =
     [(''1H'',
       [WithNucleus (Assigned (31 / 10) High (demoPrediction ''CH3'' 3) (1 / 10) []) ''1H'',
        WithNucleus (Assigned (41 / 10) High (demoPrediction ''CH2'' 4) (1 / 10) []) ''1H'']),
      (''13C'', [WithNucleus (NoPredictions (101 / 2)) ''13C''])]"
  by (simp add: assignPeaks_def demo_predictions demoObserved_def demo_tolerances orElse_def
      demo_proton_round demo_carbon_round_blocked Let_def del: assignShifts.simps)

lemma demo_assignPeaks_disjoint:
  "assignPeaks demoObserved [demoBuffer ''C1''] Map.empty 7 T 0 Map.empty =
     [(''1H'',
       [WithNucleus (Assigned (31 / 10) High (demoPrediction ''CH3'' 3) (1 / 10) []) ''1H'',
        WithNucleus (Assigned (41 / 10) High (demoPrediction ''CH2'' 4) (1 / 10) []) ''1H'']),
      (''13C'',
       [WithNucleus (Assigned (101 / 2) High (demoPrediction ''C1'' 50) (1 / 2) []) ''13C''])]"
  by (simp add: assignPeaks_def demo_predictions demoObserved_def demo_tolerances orElse_def
      demo_proton_round demo_carbon_round_free Let_def del: assignShifts.simps)

section \<open>Injective assignment\<close>

text \<open>
  C4. Within one call of \<open>assignPeaks\<close>, for each nucleus no (buffer_id, resonance_id)
  pair is assigned to two observed shifts: the pairs of the assigned entries of a nucleus,
  one per observed shift, are pairwise distinct, for every input.
\<close>

theorem assignPeaks_injective:
  assumes "(nucleus, as)
            \<in> set (assignPeaks observedShifts buffers samplesMap pH0 T I tolerances)"
  shows "distinct (claimedPairs as)"
proof -
  from assms have
    "(nucleus, as) \<in> set (assignNuclei (generatePredictions buffers samplesMap pH0 T I)
                             tolerances [] {} observedShifts)"
    by (simp add: assignPeaks_def)
  from assignNuclei_entries[OF this]
  obtain preds tol used0 shifts where "as = fst (assignShifts preds tol nucleus used0 shifts)"
    by auto
  then show ?thesis by (simp add: assignShifts_distinct_pairs)
qed

theorem assignPeaks_injective_witness:
  "(''1H'',
    [WithNucleus (Assigned (31 / 10) High (demoPrediction ''CH3'' 3) (1 / 10) []) ''1H'',
     WithNucleus (Assigned (41 / 10) High (demoPrediction ''CH2'' 4) (1 / 10) []) ''1H''])
     \<in> set (assignPeaks demoObserved [demoBuffer ''C1''] Map.empty 7 298 0 Map.empty)
   \<and> claimedPairs
       [WithNucleus (Assigned (31 / 10) High (demoPrediction ''CH3'' 3) (1 / 10) []) ''1H'',
        WithNucleus (Assigned (41 / 10) High (demoPrediction ''CH2'' 4) (1 / 10) []) ''1H'']
      = [(''buf'', ''CH3''), (''buf'', ''CH2'')]
   \<and> distinct (claimedPairs
       [WithNucleus (Assigned (31 / 10) High (demoPrediction ''CH3'' 3) (1 / 10) []) ''1H'',
        WithNucleus (Assigned (41 / 10) High (demoPrediction ''CH2'' 4) (1 / 10) []) ''1H''])"
  using assignPeaks_injective [where nucleus = "''1H''"
      and as = "[WithNucleus (Assigned (31 / 10) High (demoPrediction ''CH3'' 3) (1 / 10) []) ''1H'',
                 WithNucleus (Assigned (41 / 10) High (demoPrediction ''CH2'' 4) (1 / 10) []) ''1H'']"
      and observedShifts = demoObserved and buffers = "[demoBuffer ''C1'']"
      and samplesMap = Map.empty and ?pH0.0 = 7 and T = 298 and I = 0
      and tolerances = Map.empty]
  by (simp add: demo_assignPeaks_disjoint claimedPairs_def demoPrediction_def)

section \<open>Fallback tolerance\<close>














section \<open>Scope of the exclusion\<close>

text \<open>
  C6. The claim holds of the specification, not of the code: the set \<^verbatim>\<open>usedPredictions\<close>
  is created once, before the loop over the nuclei, and its keys
  \<^verbatim>\<open>buffer_id:resonance_id\<close> do not contain the nucleus. The example buffer has the
  resonance \<^verbatim>\<open>CH3\<close> under \<^verbatim>\<open>1H\<close> and under \<^verbatim>\<open>13C\<close>. Its \<^verbatim>\<open>13C\<close> prediction at 50 ppm is
  within the tolerance of the observed \<^verbatim>\<open>13C\<close> shift 50.5 and is claimed by no \<^verbatim>\<open>13C\<close>
  shift; yet once the \<^verbatim>\<open>1H\<close> shift 3.1 has claimed \<^verbatim>\<open>buf:CH3\<close> the \<^verbatim>\<open>13C\<close> shift is left
  with no candidate. With the identifier \<^verbatim>\<open>C1\<close> instead, everything else the same, it is
  assigned.
\<close>

theorem shared_key_blocks_other_nucleus:
  "orElse (map_of (generatePredictions [demoBuffer ''CH3''] Map.empty 7 298 0) ''13C'') []
     = [demoPrediction ''CH3'' 50]
   \<and> \<bar>101 / 2 - predicted_shift (demoPrediction ''CH3'' 50)\<bar> \<le> toleranceFor Map.empty ''13C''
   \<and> assignPeaks demoObserved [demoBuffer ''CH3''] Map.empty 7 298 0 Map.empty =
     [(''1H'',
       [WithNucleus (Assigned (31 / 10) High (demoPrediction ''CH3'' 3) (1 / 10) []) ''1H'',
        WithNucleus (Assigned (41 / 10) High (demoPrediction ''CH2'' 4) (1 / 10) []) ''1H'']),
      (''13C'', [WithNucleus (NoPredictions (101 / 2)) ''13C''])]
   \<and> assignPeaks demoObserved [demoBuffer ''C1''] Map.empty 7 298 0 Map.empty =
     [(''1H'',
       [WithNucleus (Assigned (31 / 10) High (demoPrediction ''CH3'' 3) (1 / 10) []) ''1H'',
        WithNucleus (Assigned (41 / 10) High (demoPrediction ''CH2'' 4) (1 / 10) []) ''1H'']),
      (''13C'',
       [WithNucleus (Assigned (101 / 2) High (demoPrediction ''C1'' 50) (1 / 2) []) ''13C''])]"
  by (simp add: demo_assignPeaks_shared demo_assignPeaks_disjoint demo_predictions
      demo_tolerances orElse_def demoPrediction_def)

section \<open>The guards of the fitter\<close>

lemma fitGuarded_calls:
  "optimizerCalls (fitGuarded lm observedShifts buffers samplesMap options assignments
      assignedPeaks buffersMap baseConditions pm nObs nParams dof request) = [request]"
  by (simp add: fitGuarded_def Let_def split: sum.splits)

lemma fitParameters_no_peaks:
  assumes "nAssignedPeaks observedShifts buffers samplesMap initialConditions options = 0"
  shows "fitParameters lm observedShifts buffers samplesMap initialConditions options =
     \<lparr>result = NoPeaksAssigned
                 (initialAssignments observedShifts buffers samplesMap initialConditions options),
      optimizerCalls = []\<rparr>"
  using assms
  by (simp add: fitParameters_def nAssignedPeaks_def initialAssignments_def startPH_def Let_def)

lemma fitParameters_underdetermined:
  assumes "0 < nAssignedPeaks observedShifts buffers samplesMap initialConditions options"
    and "int (nAssignedPeaks observedShifts buffers samplesMap initialConditions options)
           - int (nFreeParameters initialConditions options) < 0"
  shows "fitParameters lm observedShifts buffers samplesMap initialConditions options =
     \<lparr>result = Underdetermined
                 (initialAssignments observedShifts buffers samplesMap initialConditions options)
                 (nAssignedPeaks observedShifts buffers samplesMap initialConditions options)
                 (nFreeParameters initialConditions options)
                 (int (nAssignedPeaks observedShifts buffers samplesMap initialConditions options)
                    - int (nFreeParameters initialConditions options)),
      optimizerCalls = []\<rparr>"
  using assms
  by (simp add: fitParameters_def nAssignedPeaks_def initialAssignments_def startPH_def
      nFreeParameters_def baseConditionsOf_def Let_def case_prod_beta)

lemma fitParameters_fits:
  assumes "0 < nAssignedPeaks observedShifts buffers samplesMap initialConditions options"
    and "\<not> int (nAssignedPeaks observedShifts buffers samplesMap initialConditions options)
           - int (nFreeParameters initialConditions options) < 0"
  shows "fitParameters lm observedShifts buffers samplesMap initialConditions options
       = fitGuarded lm observedShifts buffers samplesMap (withDefaults options)
           (initialAssignments observedShifts buffers samplesMap initialConditions options)
           (getAssignedPeaksForFitting
              (initialAssignments observedShifts buffers samplesMap initialConditions options))
           (map_of (rev (map (\<lambda>b. (buffer_id b, b)) buffers)))
           (baseConditionsOf initialConditions options)
           (snd (buildParameterVector (baseConditionsOf initialConditions options)
                   (withDefaults options)))
           (nAssignedPeaks observedShifts buffers samplesMap initialConditions options)
           (nFreeParameters initialConditions options)
           (int (nAssignedPeaks observedShifts buffers samplesMap initialConditions options)
              - int (nFreeParameters initialConditions options))
           (optimizerRequest (withDefaults options)
              (getAssignedPeaksForFitting
                 (initialAssignments observedShifts buffers samplesMap initialConditions
                    options))
              (fst (buildParameterVector (baseConditionsOf initialConditions options)
                      (withDefaults options)))
              (snd (buildParameterVector (baseConditionsOf initialConditions options)
                      (withDefaults options))))"
  using assms
  by (simp add: fitParameters_def nAssignedPeaks_def initialAssignments_def startPH_def
      nFreeParameters_def baseConditionsOf_def Let_def case_prod_beta)

lemma fitParameters_optimizes:
  assumes "0 < nAssignedPeaks observedShifts buffers samplesMap initialConditions options"
    and "\<not> int (nAssignedPeaks observedShifts buffers samplesMap initialConditions options)
           - int (nFreeParameters initialConditions options) < 0"
  shows "\<exists>request.
     optimizerCalls (fitParameters lm observedShifts buffers samplesMap initialConditions options)
       = [request]"
  unfolding fitParameters_fits[OF assms] fitGuarded_calls by blast

lemma fitGuarded_success:
  assumes "lm (createModelFunction assignedPeaks buffersMap samplesMap pm baseConditions) request
             = Inr r"
    and "createResidualFunction assignedPeaks buffersMap samplesMap pm baseConditions
           (parameterValues r) = Inr residuals"
  shows "success (result (fitGuarded lm observedShifts buffers samplesMap options assignments
      assignedPeaks buffersMap baseConditions pm nObs nParams dof request))"
  using assms by (simp add: fitGuarded_def Let_def)

lemma referenceParameters_length:
  "length (fst (referenceParameters conditions refs (params, pm, index)))
     = length params + length (filter snd refs)"
  by (induction conditions refs "(params, pm, index)" arbitrary: params pm index
        rule: referenceParameters.induct) simp_all

lemma nFreeParameters_count:
  "nFreeParameters initialConditions options =
     1 + (if refineTemperature (withDefaults options) then 1 else 0)
       + (if refineIonicStrength (withDefaults options) then 1 else 0)
       + length (filter snd (refineReferences (withDefaults options)))"
  by (simp add: nFreeParameters_def buildParameterVector_def Let_def
      referenceParameters_length case_prod_beta)


lemma nFreeParameters_pos: "0 < nFreeParameters initialConditions options"
  by (simp add: nFreeParameters_count)

text \<open>
  C2. Whenever \<open>fitParameters\<close> reaches its degrees-of-freedom check (at least one peak
  was assigned) and \<open>DoF = nObs - nParams\<close> is negative, it returns the failure that
  carries exactly these counts \<open>nObs\<close> and \<open>nParams\<close> and this \<open>DoF\<close>, with the assignments
  of the first round, and the optimizer has not been invoked.
\<close>

theorem underdetermined_fails_before_optimizer:
  assumes "0 < nAssignedPeaks observedShifts buffers samplesMap initialConditions options"
    and "int (nAssignedPeaks observedShifts buffers samplesMap initialConditions options)
           - int (nFreeParameters initialConditions options) < 0"
  shows "fitParameters lm observedShifts buffers samplesMap initialConditions options =
     \<lparr>result = Underdetermined
                 (initialAssignments observedShifts buffers samplesMap initialConditions options)
                 (nAssignedPeaks observedShifts buffers samplesMap initialConditions options)
                 (nFreeParameters initialConditions options)
                 (int (nAssignedPeaks observedShifts buffers samplesMap initialConditions options)
                    - int (nFreeParameters initialConditions options)),
      optimizerCalls = []\<rparr>
   \<and> \<not> success (result (fitParameters lm observedShifts buffers samplesMap
                            initialConditions options))"
  by (simp add: fitParameters_underdetermined[OF assms])

lemma demo_single_round:
  "assignShifts [demoPrediction ''CH3'' 3, demoPrediction ''CH2'' 4] (1 / 2) ''1H'' {} [31 / 10]
     = ([WithNucleus (Assigned (31 / 10) High (demoPrediction ''CH3'' 3) (1 / 10) []) ''1H''],
        {''buf:CH3''})"
  by (simp add: demo_key demo_single_CH3 Let_def)

lemma demo_initialAssignments:
  assumes "given_initialPH options = None"
  shows "initialAssignments [(''1H'', [3.1])] [demoBuffer c] Map.empty demoConditions options =
     [(''1H'',
       [WithNucleus (Assigned (31 / 10) High (demoPrediction ''CH3'' 3) (1 / 10) []) ''1H''])]"
proof -
  have "startPH demoConditions options = 7"
    using assms by (simp add: startPH_def withDefaults_def orElse_def)
  moreover have "init_ionicStrength demoConditions = 0"
    by (simp add: demoConditions_def)
  ultimately show ?thesis
    by (simp add: initialAssignments_def assignPeaks_def demo_predictions demo_tolerances
        orElse_def demo_single_round Let_def del: assignShifts.simps)
qed

lemma demo_nAssignedPeaks:
  assumes "given_initialPH options = None"
  shows "nAssignedPeaks [(''1H'', [3.1])] [demoBuffer c] Map.empty demoConditions options = 1"
  by (simp add: nAssignedPeaks_def demo_initialAssignments[OF assms]
      getAssignedPeaksForFitting_def)

theorem underdetermined_fails_before_optimizer_witness:
  "0 < nAssignedPeaks [(''1H'', [3.1])] [demoBuffer ''C1''] Map.empty demoConditions
         (defaultOptions\<lparr>given_refineTemperature := Some True,
                          given_refineIonicStrength := Some True\<rparr>)
   \<and> int (nAssignedPeaks [(''1H'', [3.1])] [demoBuffer ''C1''] Map.empty demoConditions
         (defaultOptions\<lparr>given_refineTemperature := Some True,
                          given_refineIonicStrength := Some True\<rparr>))
       - int (nFreeParameters demoConditions
                (defaultOptions\<lparr>given_refineTemperature := Some True,
                                 given_refineIonicStrength := Some True\<rparr>)) < 0
   \<and> fitParameters stubOptimizer [(''1H'', [3.1])] [demoBuffer ''C1''] Map.empty demoConditions
         (defaultOptions\<lparr>given_refineTemperature := Some True,
                          given_refineIonicStrength := Some True\<rparr>) =
       \<lparr>result = Underdetermined
                   [(''1H'',
                     [WithNucleus (Assigned (31 / 10) High (demoPrediction ''CH3'' 3) (1 / 10) [])
                        ''1H''])]
                   1 3 (- 2),
        optimizerCalls = []\<rparr>"
  using underdetermined_fails_before_optimizer [where lm = stubOptimizer
      and observedShifts = "[(''1H'', [3.1])]" and buffers = "[demoBuffer ''C1'']"
      and samplesMap = Map.empty and initialConditions = demoConditions
      and options = "defaultOptions\<lparr>given_refineTemperature := Some True,
                                      given_refineIonicStrength := Some True\<rparr>"]
  by (simp add: demo_nAssignedPeaks demo_initialAssignments nFreeParameters_count
      withDefaults_def orElse_def defaultOptions_def)

text \<open>
  C3, as amended. The fitter fails before any optimizer call exactly when the degrees of
  freedom are negative (which includes the case of no assigned peak); with \<open>DoF = 0\<close> or
  more it invokes the optimizer once. That \<open>DoF \<le> 0\<close> is underdetermined is reported by
  \<open>checkDegreesOfFreedom\<close>, whose \<open>valid\<close> holds exactly for \<open>DoF > 0\<close>.
\<close>

theorem fitter_guard_is_strict:
  "(optimizerCalls (fitParameters lm observedShifts buffers samplesMap initialConditions options)
      = [])
     = (int (nAssignedPeaks observedShifts buffers samplesMap initialConditions options)
          - int (nFreeParameters initialConditions options) < 0)
   \<and> (int (nAssignedPeaks observedShifts buffers samplesMap initialConditions options)
          - int (nFreeParameters initialConditions options) < 0
        \<longrightarrow> \<not> success (result (fitParameters lm observedShifts buffers samplesMap
                                    initialConditions options)))
   \<and> dof_valid (checkDegreesOfFreedom
                  (int (nAssignedPeaks observedShifts buffers samplesMap initialConditions
                          options))
                  (int (nFreeParameters initialConditions options)))
     = (0 < int (nAssignedPeaks observedShifts buffers samplesMap initialConditions options)
              - int (nFreeParameters initialConditions options))"
proof -
  define nObs where
    "nObs = nAssignedPeaks observedShifts buffers samplesMap initialConditions options"
  define nParams where "nParams = nFreeParameters initialConditions options"
  define run where
    "run = fitParameters lm observedShifts buffers samplesMap initialConditions options"
  have pos: "0 < nParams" by (simp add: nParams_def nFreeParameters_pos)
  have "(optimizerCalls run = []) = (int nObs - int nParams < 0)
        \<and> (int nObs - int nParams < 0 \<longrightarrow> \<not> success (result run))"
  proof (cases "nObs = 0")
    case True
    then have "run = \<lparr>result = NoPeaksAssigned
                 (initialAssignments observedShifts buffers samplesMap initialConditions options),
                 optimizerCalls = []\<rparr>"
      unfolding run_def nObs_def by (rule fitParameters_no_peaks)
    with True pos show ?thesis by simp
  next
    case False
    then have some: "0 < nObs" by simp
    show ?thesis
    proof (cases "int nObs - int nParams < 0")
      case True
      with some show ?thesis
        using fitParameters_underdetermined[of observedShifts buffers samplesMap
            initialConditions options lm]
        by (simp add: run_def nObs_def nParams_def)
    next
      case False
      with some obtain request where "optimizerCalls run = [request]"
        using fitParameters_optimizes[of observedShifts buffers samplesMap
            initialConditions options lm]
        by (auto simp: run_def nObs_def nParams_def)
      with False show ?thesis by simp
    qed
  qed
  then show ?thesis
    by (simp add: run_def nObs_def nParams_def checkDegreesOfFreedom_def Let_def)
qed

theorem fitter_guard_is_strict_witness:
  "int (nAssignedPeaks [(''1H'', [3.1])] [demoBuffer ''C1''] Map.empty demoConditions
         (defaultOptions\<lparr>given_refineTemperature := Some True\<rparr>))
       - int (nFreeParameters demoConditions
                (defaultOptions\<lparr>given_refineTemperature := Some True\<rparr>)) = - 1
   \<and> optimizerCalls
        (fitParameters stubOptimizer [(''1H'', [3.1])] [demoBuffer ''C1''] Map.empty
           demoConditions (defaultOptions\<lparr>given_refineTemperature := Some True\<rparr>)) = []
   \<and> \<not> success (result
        (fitParameters stubOptimizer [(''1H'', [3.1])] [demoBuffer ''C1''] Map.empty
           demoConditions (defaultOptions\<lparr>given_refineTemperature := Some True\<rparr>)))
   \<and> \<not> dof_valid (checkDegreesOfFreedom 1 2)"
  using fitter_guard_is_strict [where lm = stubOptimizer
      and observedShifts = "[(''1H'', [3.1])]" and buffers = "[demoBuffer ''C1'']"
      and samplesMap = Map.empty and initialConditions = demoConditions
      and options = "defaultOptions\<lparr>given_refineTemperature := Some True\<rparr>"]
  by (simp add: demo_nAssignedPeaks nFreeParameters_count withDefaults_def orElse_def
      defaultOptions_def)

lemma demo_residuals:
  "\<exists>residuals.
     createResidualFunction
       [\<lparr>peak_nucleus = ''1H'', peak_observed_shift = x, peak_buffer_id = ''buf'',
         peak_resonance_id = ''CH3'', peak_predicted_shift = y\<rparr>]
       (map_of (rev (map (\<lambda>b. (buffer_id b, b)) [demoBuffer c]))) Map.empty pm base params
     = Inr residuals"
proof -
  have fields: "buffer_id (demoBuffer c) = ''buf''"
    "chemical_shifts (demoBuffer c) =
       [(''1H'', [demoResonance ''CH3'' 3.5 2.5, demoResonance ''CH2'' 4.5 3.5]),
        (''13C'', [demoResonance c 52 48])]"
    by (simp_all add: demoBuffer_def)
  have res: "resonance_id (demoResonance n a b) = n" for n a b
    by (simp add: demoResonance_def)
  show ?thesis
    by (simp add: createResidualFunction_def fields res orElse_def)
qed

lemma demo_fit_succeeds:
  "success (result (fitParameters stubOptimizer [(''1H'', [3.1])] [demoBuffer ''C1''] Map.empty
           demoConditions defaultOptions))"
proof -
  have a: "initialAssignments [(''1H'', [3.1])] [demoBuffer ''C1''] Map.empty demoConditions
             defaultOptions =
     [(''1H'',
       [WithNucleus (Assigned (31 / 10) High (demoPrediction ''CH3'' 3) (1 / 10) []) ''1H''])]"
    by (rule demo_initialAssignments) (simp add: defaultOptions_def)
  have n: "nAssignedPeaks [(''1H'', [3.1])] [demoBuffer ''C1''] Map.empty demoConditions
             defaultOptions = 1"
    by (rule demo_nAssignedPeaks) (simp add: defaultOptions_def)
  have p: "nFreeParameters demoConditions defaultOptions = 1"
    by (simp add: nFreeParameters_count withDefaults_def orElse_def defaultOptions_def)
  have peaks: "getAssignedPeaksForFitting
      [(''1H'',
       [WithNucleus (Assigned (31 / 10) High (demoPrediction ''CH3'' 3) (1 / 10) []) ''1H''])]
     = [\<lparr>peak_nucleus = ''1H'', peak_observed_shift = 31 / 10, peak_buffer_id = ''buf'',
         peak_resonance_id = ''CH3'', peak_predicted_shift = 3\<rparr>]"
    by (simp add: getAssignedPeaksForFitting_def demoPrediction_def)
  let ?peaks = "[\<lparr>peak_nucleus = ''1H'', peak_observed_shift = 31 / 10,
                   peak_buffer_id = ''buf'', peak_resonance_id = ''CH3'',
                   peak_predicted_shift = 3\<rparr>]"
  let ?buffersMap = "map_of (rev (map (\<lambda>b. (buffer_id b, b)) [demoBuffer ''C1'']))"
  let ?base = "baseConditionsOf demoConditions defaultOptions"
  let ?vector = "buildParameterVector ?base (withDefaults defaultOptions)"
  let ?request = "optimizerRequest (withDefaults defaultOptions) ?peaks (fst ?vector)
                    (snd ?vector)"
  have run:
    "fitParameters stubOptimizer [(''1H'', [3.1])] [demoBuffer ''C1''] Map.empty demoConditions
        defaultOptions
       = fitGuarded stubOptimizer [(''1H'', [3.1])] [demoBuffer ''C1''] Map.empty
           (withDefaults defaultOptions)
           [(''1H'',
             [WithNucleus (Assigned (31 / 10) High (demoPrediction ''CH3'' 3) (1 / 10) [])
                ''1H''])]
           ?peaks ?buffersMap ?base (snd ?vector) 1 1 0 ?request"
    using fitParameters_fits[of "[(''1H'', [3.1])]" "[demoBuffer ''C1'']" Map.empty
        demoConditions defaultOptions stubOptimizer]
    by (simp add: n p a peaks)
  have optimized:
    "stubOptimizer (createModelFunction ?peaks ?buffersMap Map.empty (snd ?vector) ?base)
       ?request
     = Inr \<lparr>parameterValues = lm_initialValues ?request, iterations = 1\<rparr>"
    by (simp add: stubOptimizer_def)
  obtain residuals where
    "createResidualFunction ?peaks ?buffersMap Map.empty (snd ?vector) ?base
       (parameterValues \<lparr>parameterValues = lm_initialValues ?request, iterations = 1\<rparr>)
     = Inr residuals"
    using demo_residuals by blast
  with optimized show ?thesis
    unfolding run by (rule fitGuarded_success)
qed

text \<open>
  As stated, C3 fails at \<open>DoF = 0\<close>: one assigned observation and the single free
  parameter pH. The fitter does not report an underdetermined system; it invokes the
  optimizer, and when the optimizer returns the fit succeeds.
\<close>

theorem fitter_guard_counterexample:
  "int (nAssignedPeaks [(''1H'', [3.1])] [demoBuffer ''C1''] Map.empty demoConditions
         defaultOptions)
       - int (nFreeParameters demoConditions defaultOptions) = 0
   \<and> optimizerCalls
        (fitParameters stubOptimizer [(''1H'', [3.1])] [demoBuffer ''C1''] Map.empty
           demoConditions defaultOptions) \<noteq> []
   \<and> success (result
        (fitParameters stubOptimizer [(''1H'', [3.1])] [demoBuffer ''C1''] Map.empty
           demoConditions defaultOptions))"
proof -
  have n: "nAssignedPeaks [(''1H'', [3.1])] [demoBuffer ''C1''] Map.empty demoConditions
             defaultOptions = 1"
    by (rule demo_nAssignedPeaks) (simp add: defaultOptions_def)
  have p: "nFreeParameters demoConditions defaultOptions = 1"
    by (simp add: nFreeParameters_count withDefaults_def orElse_def defaultOptions_def)
  obtain request where
    "optimizerCalls
       (fitParameters stubOptimizer [(''1H'', [3.1])] [demoBuffer ''C1''] Map.empty
          demoConditions defaultOptions) = [request]"
    using fitParameters_optimizes[of "[(''1H'', [3.1])]" "[demoBuffer ''C1'']" Map.empty
        demoConditions defaultOptions stubOptimizer]
    by (auto simp: n p)
  then show ?thesis by (simp add: n p demo_fit_succeeds)
qed

section \<open>Zero observations\<close>

lemma objectSet_new: "k \<notin> fst ` set xs \<Longrightarrow> objectSet xs k v = xs @ [(k, v)]"
  by (induction xs) auto

lemma assignNuclei_no_shifts:
  assumes "list_all (\<lambda>entry. snd entry = []) obs"
    and "distinct (map fst obs)"
    and "fst ` set acc \<inter> fst ` set obs = {}"
  shows "assignNuclei predictions tolerances acc used obs
           = acc @ map (\<lambda>entry. (fst entry, [])) obs"
  using assms
proof (induction obs arbitrary: acc)
  case Nil
  then show ?case by simp
next
  case (Cons entry rest)
  obtain nucleus shifts where entry: "entry = (nucleus, shifts)" by (cases entry)
  from Cons.prems(1) have empty: "shifts = []" and rest: "list_all (\<lambda>entry. snd entry = []) rest"
    by (simp_all add: entry)
  from Cons.prems(3) have new: "nucleus \<notin> fst ` set acc"
    by (auto simp: entry)
  have d: "distinct (map fst rest)" and notin: "nucleus \<notin> fst ` set rest"
    using Cons.prems(2) by (simp_all add: entry)
  have disj: "fst ` set (acc @ [(nucleus, [])]) \<inter> fst ` set rest = {}"
    using Cons.prems(3) notin by (auto simp: entry)
  have "assignNuclei predictions tolerances acc used (entry # rest)
          = assignNuclei predictions tolerances (acc @ [(nucleus, [])]) used rest"
    by (simp add: entry empty Let_def objectSet_new[OF new])
  also have "\<dots> = (acc @ [(nucleus, [])]) @ map (\<lambda>entry. (fst entry, [])) rest"
    by (rule Cons.IH[OF rest d disj])
  finally show ?case by (simp add: entry)
qed

lemma no_assignments_no_peaks:
  "getAssignedPeaksForFitting (map (\<lambda>entry. (fst entry, [])) obs) = []"
  by (induction obs) (simp_all add: getAssignedPeaksForFitting_def)

text \<open>
  C9. With zero observations (every per-nucleus list of the observations object is empty;
  the keys of an object are distinct) \<open>assignPeaks\<close> returns the empty list for each nucleus,
  and \<open>fitParameters\<close> returns the failure \<^verbatim>\<open>No peaks could be assigned to buffer
  resonances\<close> with these assignments, the optimizer not having been invoked. In the model
  \<open>assignPeaks\<close> has no exceptional result: none of its steps can throw.
\<close>

theorem zero_observations:
  assumes "list_all (\<lambda>entry. snd entry = []) observedShifts"
    and "distinct (map fst observedShifts)"
  shows "assignPeaks observedShifts buffers samplesMap pH0 T I tolerances
           = map (\<lambda>entry. (fst entry, [])) observedShifts
   \<and> fitParameters lm observedShifts buffers samplesMap initialConditions options
       = \<lparr>result = NoPeaksAssigned (map (\<lambda>entry. (fst entry, [])) observedShifts),
          optimizerCalls = []\<rparr>
   \<and> \<not> success (result (fitParameters lm observedShifts buffers samplesMap initialConditions
                            options))"
proof -
  have round: "assignPeaks observedShifts buffers samplesMap pH1 T1 I1 tol
                 = map (\<lambda>entry. (fst entry, [])) observedShifts" for pH1 T1 I1 tol
    using assignNuclei_no_shifts[OF assms, of "[]"] by (simp add: assignPeaks_def)
  have init: "initialAssignments observedShifts buffers samplesMap initialConditions options
                = map (\<lambda>entry. (fst entry, [])) observedShifts"
    by (simp add: initialAssignments_def round)
  have "nAssignedPeaks observedShifts buffers samplesMap initialConditions options = 0"
    by (simp add: nAssignedPeaks_def init no_assignments_no_peaks)
  from fitParameters_no_peaks[OF this, of lm] show ?thesis
    by (simp add: round init)
qed

theorem zero_observations_witness:
  "list_all (\<lambda>entry. snd entry = []) [(''1H'', [] :: real list), (''13C'', [])]
   \<and> distinct (map fst [(''1H'', [] :: real list), (''13C'', [])])
   \<and> assignPeaks [(''1H'', []), (''13C'', [])] [demoBuffer ''C1''] Map.empty 7 298 0 Map.empty
       = [(''1H'', []), (''13C'', [])]
   \<and> fitParameters stubOptimizer [(''1H'', []), (''13C'', [])] [demoBuffer ''C1''] Map.empty
         demoConditions defaultOptions
       = \<lparr>result = NoPeaksAssigned [(''1H'', []), (''13C'', [])], optimizerCalls = []\<rparr>"
  using zero_observations [where observedShifts = "[(''1H'', []), (''13C'', [])]"
      and buffers = "[demoBuffer ''C1'']" and samplesMap = Map.empty and ?pH0.0 = 7
      and T = 298 and I = 0 and tolerances = Map.empty and lm = stubOptimizer
      and initialConditions = demoConditions and options = defaultOptions]
  by simp

section \<open>Parameter uncertainties\<close>

lemma uncertainties_shape:
  "length (calculateParameterUncertainties params residualFn residualVariance step)
     = length params
   \<and> list_all (\<lambda>u. 0 \<le> u)
       (calculateParameterUncertainties params residualFn residualVariance step)"
  by (auto simp: calculateParameterUncertainties_def Let_def list_all_iff
      split: sum.splits)

text \<open>
  C8, as amended. \<open>calculateParameterUncertainties\<close> never raises and returns one entry
  per parameter, none of them negative or undefined. When the residual function throws,
  or the Jacobian has no row (so that the transpose product throws), the result is the
  all-zero vector.
\<close>

theorem uncertainties_never_negative:
  "length (calculateParameterUncertainties params residualFn residualVariance step)
     = length params
   \<and> list_all (\<lambda>u. 0 \<le> u)
       (calculateParameterUncertainties params residualFn residualVariance step)
   \<and> ((\<exists>e. calculateJacobian residualFn params step = Inl e)
        \<or> calculateJacobian residualFn params step = Inr []
       \<longrightarrow> calculateParameterUncertainties params residualFn residualVariance step
             = replicate (length params) 0)"
proof -
  have zeros: "map (\<lambda>p. 0::real) params = replicate (length params) 0"
    by (simp add: map_replicate_const)
  have "(\<exists>e. calculateJacobian residualFn params step = Inl e)
        \<or> calculateJacobian residualFn params step = Inr []
       \<longrightarrow> calculateParameterUncertainties params residualFn residualVariance step
             = replicate (length params) 0"
    by (auto simp: calculateParameterUncertainties_def matrixTransposeProduct_def zeros)
  with uncertainties_shape[of params residualFn residualVariance step] show ?thesis
    by blast
qed

theorem uncertainties_never_negative_witness:
  "calculateJacobian throwingResidual [7, 298] (1 / 1000000)
     = Inl (Error ''Resonance not found: CH3 in buf'')
   \<and> calculateParameterUncertainties [7, 298] throwingResidual 1 (1 / 1000000) = [0, 0]"
  using uncertainties_never_negative [where params = "[7, 298]"
      and residualFn = throwingResidual and residualVariance = 1 and step = "1 / 1000000"]
  by (simp add: calculateJacobian_def throwingResidual_def)

text \<open>
  As stated, C8 fails for a singular matrix: with one parameter and a residual that does
  not depend on it the Jacobian is \<open>[[0]]\<close> and so is its transpose product. The pivot is
  replaced by \<^verbatim>\<open>1e-10\<close>, the inverse is \<^verbatim>\<open>1e10\<close>, and with residual variance 1 the
  uncertainty returned is \<^verbatim>\<open>1e5\<close>, not 0.
\<close>

lemma sqrt_floor: "sqrt (1 / 10000000000) = 1 / 100000"
  by (rule real_sqrt_unique) (simp_all add: power2_eq_square)

lemma sqrt_scaled: "sqrt 10000000000 = 100000"
  by (rule real_sqrt_unique) (simp_all add: power2_eq_square)

theorem singular_not_zero_counterexample:
  "calculateJacobian flatResidual [7] (1 / 1000000) = Inr [[0]]
   \<and> matrixTransposeProduct [[0]] = Inr [[0]]
   \<and> calculateParameterUncertainties [7] flatResidual 1 (1 / 1000000) = [100000]"
proof -
  have jac: "calculateJacobian flatResidual [7] (1 / 1000000) = Inr [[0]]"
    by (simp add: calculateJacobian_def flatResidual_def matSet_def)
  have jtj: "matrixTransposeProduct [[0]] = Inr [[0]]"
    by (simp add: matrixTransposeProduct_def)
  have chol: "choleskyFactor [[0]] = [[1 / 100000]]"
    by (simp add: choleskyFactor_def choleskyEntry_def matSet_def sqrt_floor)
  have linv: "invertLower [[1 / 100000]] = [[100000]]"
    by (simp add: invertLower_def invertLowerEntry_def matSet_def)
  have inv: "invertSymmetricMatrix [[0]] = [[10000000000]]"
    by (simp add: invertSymmetricMatrix_def chol linv)
  show ?thesis
    by (simp add: jac jtj calculateParameterUncertainties_def inv sqrt_scaled)
qed

end
